theory Spec2Isabelle
  imports Complex_Main "HOL-Library.AList" "HOL-Library.Product_Lexorder"
begin

section \<open>Values shared by the handlers of routes.py\<close>

text \<open>
  A decoded JSON document, as \<^verbatim>\<open>request.get_json()\<close> returns it and as
  \<^verbatim>\<open>jsonify\<close> takes it. A \<open>JObj\<close> is a Python dict in insertion order: its keys
  are pairwise distinct and \<open>map_of\<close> reads it. Python floats and ints are modelled by
  the real numbers they denote (no NaN, no infinities, no rounding of sums).
\<close>

datatype json =
    JNull
  | JBool bool
  | JNum real
  | JStr string
  | JArr "json list"
  | JObj "(string \<times> json) list"

text \<open>
  The exceptions the handlers can meet. Only the message of a \<open>ValueError\<close> reaches
  a response (routes.py line 166); the logging calls are not modelled.
\<close>

datatype exn =
    ValueError string
  | TypeError
  | KeyError
  | IndexError
  | AttributeError
  | RequestException
  | HTTPException

text \<open>A Flask response: the body given to \<^verbatim>\<open>jsonify\<close> and the status code.\<close>

type_synonym response = "json \<times> nat"

text \<open>\<^verbatim>\<open>d.get(k, default)\<close> on a dict.\<close>

definition dict_get :: "('k \<times> 'v) list \<Rightarrow> 'k \<Rightarrow> 'v \<Rightarrow> 'v" where
  "dict_get d k dflt = (case map_of d k of None \<Rightarrow> dflt | Some v \<Rightarrow> v)"

section \<open>Local time: datetime.fromtimestamp and strftime\<close>

text \<open>Decimal text of an integer, as \<^verbatim>\<open>str\<close> prints it.\<close>

definition digit_char :: "nat \<Rightarrow> char" where
  "digit_char n = ''0123456789'' ! (n mod 10)"

fun str_nat :: "nat \<Rightarrow> string" where
  "str_nat n = (if n < 10 then [digit_char n] else str_nat (n div 10) @ [digit_char n])"

declare str_nat.simps [simp del]

definition str_int :: "int \<Rightarrow> string" where
  "str_int i = (if i < 0 then CHR ''-'' # str_nat (nat (- i)) else str_nat (nat i))"

text \<open>Two digits, zero padded: the \<^verbatim>\<open>%d\<close>, \<^verbatim>\<open>%H\<close>, \<^verbatim>\<open>%M\<close> and \<^verbatim>\<open>%S\<close> of strftime.\<close>

definition pad2 :: "int \<Rightarrow> string" where
  "pad2 n = (if n < 10 then CHR ''0'' # str_int n else str_int n)"

text \<open>
  The proleptic Gregorian calendar that Python's datetime uses: the date of a day
  counted from 1970-01-01, and the day count of a date.
\<close>

definition civil_from_days :: "int \<Rightarrow> int \<times> int \<times> int" where
  "civil_from_days z0 =
     (let z = z0 + 719468;
          era = z div 146097;
          doe = z mod 146097;
          yoe = (doe - doe div 1460 + doe div 36524 - doe div 146096) div 365;
          doy = doe - (365 * yoe + yoe div 4 - yoe div 100);
          mp = (5 * doy + 2) div 153;
          d = doy - (153 * mp + 2) div 5 + 1;
          m = (if mp < 10 then mp + 3 else mp - 9);
          y = yoe + era * 400
      in (if m \<le> 2 then y + 1 else y, m, d))"

definition days_from_civil :: "int \<Rightarrow> int \<Rightarrow> int \<Rightarrow> int" where
  "days_from_civil y0 m d =
     (let y = (if m \<le> 2 then y0 - 1 else y0);
          era = y div 400;
          yoe = y mod 400;
          doy = (153 * (if m > 2 then m - 3 else m + 9) + 2) div 5 + d - 1;
          doe = yoe * 365 + yoe div 4 - yoe div 100 + doy
      in era * 146097 + doe - 719468)"

text \<open>A naive datetime.\<close>

record datetime =
  year :: int
  month :: int
  day :: int
  hour :: int
  minute :: int
  second :: int
  microsecond :: int

text \<open>Python orders naive datetimes field by field.\<close>

definition cmp_key ::
  "datetime \<Rightarrow> int \<times> int \<times> int \<times> int \<times> int \<times> int \<times> int"
where
  "cmp_key d = (year d, month d, day d, hour d, minute d, second d, microsecond d)"

text \<open>
  The server's time zone is a parameter: \<open>utcoffset t\<close> is the offset from UTC, in
  seconds, in force at the epoch second \<open>t\<close> (a function of \<open>t\<close>, so daylight saving
  time is covered). The timestamps are whole seconds. \<open>localtime\<close> is the wall-clock
  reading; \<open>fromtimestamp\<close> raises
  ValueError when the year leaves MINYEAR..MAXYEAR. (For timestamps beyond the
  platform's time_t CPython raises OverflowError or OSError instead.)
\<close>

definition localtime :: "(int \<Rightarrow> int) \<Rightarrow> int \<Rightarrow> datetime" where
  "localtime utcoffset t =
     (let l = t + utcoffset t;
          ymd = civil_from_days (l div 86400);
          s = l mod 86400
      in \<lparr>year = fst ymd, month = fst (snd ymd), day = snd (snd ymd),
          hour = s div 3600, minute = (s mod 3600) div 60, second = s mod 60,
          microsecond = 0\<rparr>)"

definition fromtimestamp :: "(int \<Rightarrow> int) \<Rightarrow> int \<Rightarrow> exn + datetime" where
  "fromtimestamp utcoffset t =
     (let d = localtime utcoffset t
      in if 1 \<le> year d \<and> year d \<le> 9999 then Inr d
         else Inl (ValueError (''year '' @ str_int (year d) @ '' is out of range'')))"

text \<open>\<^verbatim>\<open>weekday()\<close>: Monday is 0.\<close>

definition weekday :: "datetime \<Rightarrow> nat" where
  "weekday d = nat ((days_from_civil (year d) (month d) (day d) + 3) mod 7)"

definition day_name :: "string list" where
  "day_name = [''Monday'', ''Tuesday'', ''Wednesday'', ''Thursday'', ''Friday'',
     ''Saturday'', ''Sunday'']"

definition month_abbr :: "string list" where
  "month_abbr = [''Jan'', ''Feb'', ''Mar'', ''Apr'', ''May'', ''Jun'', ''Jul'', ''Aug'',
     ''Sep'', ''Oct'', ''Nov'', ''Dec'']"

text \<open>
  The four formats routes.py passes to strftime (C locale).
  \<^verbatim>\<open>'%Y-%m-%d'\<close> is only used as a dict key: the key is kept as the triple of numbers
  the text is printed from, which it determines.
\<close>

type_synonym date_key = "int \<times> int \<times> int"

definition strftime_Ymd :: "datetime \<Rightarrow> date_key" where
  "strftime_Ymd d = (year d, month d, day d)"

definition strftime_A_b_d :: "datetime \<Rightarrow> string" where
  "strftime_A_b_d d =
     day_name ! weekday d @ '', '' @ month_abbr ! nat (month d - 1) @ '' '' @ pad2 (day d)"

definition strftime_A_b_d_H_M :: "datetime \<Rightarrow> string" where
  "strftime_A_b_d_H_M d = strftime_A_b_d d @ '' '' @ pad2 (hour d) @ '':'' @ pad2 (minute d)"

definition strftime_H_M_S :: "datetime \<Rightarrow> string" where
  "strftime_H_M_S d = pad2 (hour d) @ '':'' @ pad2 (minute d) @ '':'' @ pad2 (second d)"

section \<open>The upstream forecast payload\<close>

text \<open>
  One 3-hour sample of the provider's feed, typed as the provider documents it:
  \<open>dt\<close> in whole epoch seconds, the \<open>main\<close>, \<open>wind\<close> and \<open>clouds\<close> blocks present,
  \<open>weather\<close> a list, \<open>visibility\<close>, \<open>rain\<close> and \<open>snow\<close> optional, the last two being
  dicts that may hold a \<^verbatim>\<open>'3h'\<close> entry.
\<close>

record main_block =
  temp :: real
  feels_like :: real
  temp_min :: real
  temp_max :: real
  humidity :: real
  pressure :: real

record wind_block =
  speed :: real
  deg :: real

record weather_block =
  description :: string
  icon :: string

record sample =
  dt :: int
  main :: main_block
  wind :: wind_block
  clouds_all :: real
  weather :: "weather_block list"
  visibility :: "real option"
  rain :: "(string \<times> real) list option"
  snow :: "(string \<times> real) list option"

section \<open>predict: one sample per day (routes.py lines 104 to 115)\<close>

text \<open>The value stored under a date: the dict of lines 111 to 115.\<close>

record entry =
  entry_dt :: int
  timestamp :: datetime
  forecast :: sample

text \<open>
  \<open>daily_forecasts\<close> is a Python dict, which keeps insertion order: assigning to a
  key that is present replaces the value in place, assigning to a new key appends.
  \<open>AList.update\<close> is exactly that.
\<close>

fun daily_forecasts_loop ::
  "(int \<Rightarrow> int) \<Rightarrow> (date_key \<times> entry) list \<Rightarrow> sample list \<Rightarrow> exn + (date_key \<times> entry) list"
where
  "daily_forecasts_loop tz daily [] = Inr daily"
| "daily_forecasts_loop tz daily (f # fs) =
     (case fromtimestamp tz (dt f) of
        Inl e \<Rightarrow> Inl e
      | Inr d \<Rightarrow>
          (let date_key = strftime_Ymd d
           in daily_forecasts_loop tz
                (if date_key \<notin> fst ` set daily \<or> hour d = 12
                 then AList.update date_key \<lparr>entry_dt = dt f, timestamp = d, forecast = f\<rparr> daily
                 else daily)
                fs))"

definition daily_forecasts ::
  "(int \<Rightarrow> int) \<Rightarrow> sample list \<Rightarrow> exn + (date_key \<times> entry) list"
where
  "daily_forecasts tz forecasts = daily_forecasts_loop tz [] forecasts"

section \<open>predict: the first five days, in order (line 118)\<close>

text \<open>
  \<^verbatim>\<open>sorted(daily_forecasts.items(), key=lambda x: x[1]['timestamp'])[:5]\<close>.
  Python's sort is stable, and so is \<open>sort_key\<close>.
\<close>

definition sorted_forecasts :: "(date_key \<times> entry) list \<Rightarrow> (date_key \<times> entry) list" where
  "sorted_forecasts daily = take 5 (sort_key (\<lambda>x. cmp_key (timestamp (snd x))) daily)"

section \<open>predict: one summary per retained sample (lines 121 to 146)\<close>

text \<open>
  \<^verbatim>\<open>round(x, ndigits)\<close>: to the nearest multiple of \<open>10 ^ -ndigits\<close>, a tie going to the
  even one. On the reals the result is that multiple itself; Python returns the float
  nearest to it.
\<close>

definition round_half_even :: "real \<Rightarrow> int" where
  "round_half_even y =
     (let f = \<lfloor>y\<rfloor>; r = y - of_int f
      in if r < 1 / 2 then f else if 1 / 2 < r then f + 1 else if even f then f else f + 1)"

definition py_round :: "real \<Rightarrow> nat \<Rightarrow> real" where
  "py_round x ndigits = of_int (round_half_even (x * 10 ^ ndigits)) / 10 ^ ndigits"

text \<open>
  \<^verbatim>\<open>str.title()\<close>: a cased character is upper-cased when the character before it is
  not cased, and lower-cased when it is. Strings are byte strings here and the cased
  characters are the ASCII letters: the provider's descriptions with units=metric and
  the default language are ASCII.
\<close>

definition is_upper :: "char \<Rightarrow> bool" where
  "is_upper c = (65 \<le> (of_char c :: nat) \<and> (of_char c :: nat) \<le> 90)"

definition is_lower :: "char \<Rightarrow> bool" where
  "is_lower c = (97 \<le> (of_char c :: nat) \<and> (of_char c :: nat) \<le> 122)"

definition to_upper :: "char \<Rightarrow> char" where
  "to_upper c = (if is_lower c then char_of ((of_char c :: nat) - 32) else c)"

definition to_lower :: "char \<Rightarrow> char" where
  "to_lower c = (if is_upper c then char_of ((of_char c :: nat) + 32) else c)"

fun title_loop :: "bool \<Rightarrow> string \<Rightarrow> string" where
  "title_loop previous_is_cased [] = []"
| "title_loop previous_is_cased (c # cs) =
     (if previous_is_cased then to_lower c else to_upper c)
       # title_loop (is_upper c \<or> is_lower c) cs"

definition title :: "string \<Rightarrow> string" where
  "title s = title_loop False s"

text \<open>\<^verbatim>\<open>d.get(k, default)\<close> where \<open>k\<close> is an optional field of a typed payload.\<close>

definition field_get :: "'a option \<Rightarrow> 'a \<Rightarrow> 'a" where
  "field_get v dflt = (case v of None \<Rightarrow> dflt | Some x \<Rightarrow> x)"

text \<open>Line 145.\<close>

definition precipitation :: "sample \<Rightarrow> real" where
  "precipitation f =
     dict_get (field_get (rain f) []) ''3h'' 0 + dict_get (field_get (snow f) []) ''3h'' 0"

text \<open>
  The body of the loop of line 122: \<^verbatim>\<open>forecast['weather'][0]\<close> raises IndexError on
  an empty list, everything else is total on a typed sample.
\<close>

definition format_prediction :: "nat \<Rightarrow> date_key \<times> entry \<Rightarrow> exn + json" where
  "format_prediction idx item =
     (let data = snd item;
          f = forecast data;
          m = main f;
          w = wind f
      in case weather f of
           [] \<Rightarrow> Inl IndexError
         | wx # _ \<Rightarrow>
             Inr (JObj
               [(''day_offset'', JNum (of_nat idx)),
                (''date'', JStr (strftime_A_b_d (timestamp data))),
                (''full_datetime'', JStr (strftime_A_b_d_H_M (timestamp data))),
                (''temperature'', JNum (py_round (temp m) 1)),
                (''feels_like'', JNum (py_round (feels_like m) 1)),
                (''temp_min'', JNum (py_round (temp_min m) 1)),
                (''temp_max'', JNum (py_round (temp_max m) 1)),
                (''humidity'', JNum (humidity m)),
                (''pressure'', JNum (pressure m)),
                (''wind_speed'', JNum (py_round (speed w) 1)),
                (''wind_deg'', JNum (deg w)),
                (''cloudiness'', JNum (clouds_all f)),
                (''visibility'', (case visibility f of None \<Rightarrow> JStr ''N/A'' | Some v \<Rightarrow> JNum v)),
                (''weather_description'', JStr (title (description wx))),
                (''weather_icon'', JStr (icon wx)),
                (''precipitation'', JNum (precipitation f))]))"

text \<open>
  The loop over \<^verbatim>\<open>enumerate(sorted_forecasts)\<close>: \<open>predictions\<close> is the list built so
  far, \<open>idx\<close> the index of the next item.
\<close>

fun predictions_loop :: "json list \<Rightarrow> nat \<Rightarrow> (date_key \<times> entry) list \<Rightarrow> exn + json list" where
  "predictions_loop predictions idx [] = Inr predictions"
| "predictions_loop predictions idx (item # items) =
     (case format_prediction idx item of
        Inl e \<Rightarrow> Inl e
      | Inr p \<Rightarrow> predictions_loop (predictions @ [p]) (Suc idx) items)"

text \<open>The Forecast Aggregator: lines 104 to 146 of predict.\<close>

definition aggregate :: "(int \<Rightarrow> int) \<Rightarrow> sample list \<Rightarrow> exn + json list" where
  "aggregate tz forecasts =
     (case daily_forecasts tz forecasts of
        Inl e \<Rightarrow> Inl e
      | Inr daily \<Rightarrow> predictions_loop [] 0 (sorted_forecasts daily))"

section \<open>Requests, upstream responses and the environment of a handler\<close>

text \<open>Python truthiness of a decoded JSON value (\<^verbatim>\<open>not data\<close>).\<close>

fun truthy :: "json \<Rightarrow> bool" where
  "truthy JNull = False"
| "truthy (JBool b) = b"
| "truthy (JNum x) = (x \<noteq> 0)"
| "truthy (JStr s) = (s \<noteq> [])"
| "truthy (JArr xs) = (xs \<noteq> [])"
| "truthy (JObj kvs) = (kvs \<noteq> [])"

text \<open>
  \<^verbatim>\<open>k in data\<close> for a string \<open>k\<close>: a key test on a dict, a membership test on a list,
  a substring test on a string, TypeError on a number or a boolean.
\<close>

fun starts_with :: "'a list \<Rightarrow> 'a list \<Rightarrow> bool" where
  "starts_with [] ys = True"
| "starts_with (x # xs) [] = False"
| "starts_with (x # xs) (y # ys) = (x = y \<and> starts_with xs ys)"

fun substring :: "'a list \<Rightarrow> 'a list \<Rightarrow> bool" where
  "substring xs [] = (xs = [])"
| "substring xs (y # ys) = (starts_with xs (y # ys) \<or> substring xs ys)"

definition py_in :: "string \<Rightarrow> json \<Rightarrow> exn + bool" where
  "py_in k data =
     (case data of
        JObj kvs \<Rightarrow> Inr (k \<in> fst ` set kvs)
      | JArr xs \<Rightarrow> Inr (JStr k \<in> set xs)
      | JStr s \<Rightarrow> Inr (substring k s)
      | _ \<Rightarrow> Inl TypeError)"

text \<open>\<^verbatim>\<open>data[k]\<close> and \<^verbatim>\<open>data.get(k, default)\<close> for a string \<open>k\<close>.\<close>

definition getitem :: "json \<Rightarrow> string \<Rightarrow> exn + json" where
  "getitem data k =
     (case data of
        JObj kvs \<Rightarrow> (case map_of kvs k of None \<Rightarrow> Inl KeyError | Some v \<Rightarrow> Inr v)
      | _ \<Rightarrow> Inl TypeError)"

definition py_get :: "json \<Rightarrow> string \<Rightarrow> json \<Rightarrow> exn + json" where
  "py_get data k dflt =
     (case data of
        JObj kvs \<Rightarrow> Inr (dict_get kvs k dflt)
      | _ \<Rightarrow> Inl AttributeError)"

text \<open>
  The decoded body of an upstream response, typed: the top-level keys that either
  endpoint reads, each possibly absent. \<open>forecast_list\<close> is the key \<^verbatim>\<open>'list'\<close>;
  \<open>place_name\<close>, \<open>main_now\<close>, \<open>wind_now\<close> and \<open>weather_now\<close> are the keys \<^verbatim>\<open>'name'\<close>,
  \<^verbatim>\<open>'main'\<close>, \<^verbatim>\<open>'wind'\<close> and \<^verbatim>\<open>'weather'\<close> of a current-weather body.
\<close>

record city_block =
  name :: "string option"
  country :: "string option"
  sunrise :: "int option"
  sunset :: "int option"

record payload =
  message :: "string option"
  city :: "city_block option"
  forecast_list :: "sample list option"
  place_name :: "string option"
  main_now :: "main_block option"
  wind_now :: "wind_block option"
  weather_now :: "weather_block list option"

text \<open>
  What \<^verbatim>\<open>requests.get\<close> returns: the status code, and what \<^verbatim>\<open>response.json()\<close> gives
  (it raises on a body that is not JSON).
\<close>

record http_response =
  status_code :: nat
  json_body :: "exn + payload"

text \<open>
  Everything a handler reads besides its request:
  \<^item> \<open>float_of_str\<close>: Python's \<^verbatim>\<open>float\<close> on a string, the message of the ValueError or the
    value; \<open>int_of_str\<close>: \<^verbatim>\<open>int\<close> on a string; \<open>str_of_float\<close>: how an f-string prints a
    float;
  \<open>utcoffset\<close>: the server's time zone; \<open>utcnow\<close>: the clock;
  \<^item> \<open>OPENWEATHER_API_KEY\<close>: the setting of config.py, None when the variable is unset;
  \<^item> \<open>requests_get\<close>: the outcome of the GET to a URL with parameters (an exception on a
    timeout or a network failure).
\<close>

record env =
  float_of_str :: "string \<Rightarrow> string + real"
  int_of_str :: "string \<Rightarrow> int option"
  str_of_float :: "real \<Rightarrow> string"
  utcoffset :: "int \<Rightarrow> int"
  utcnow :: datetime
  OPENWEATHER_API_KEY :: "string option"
  requests_get :: "string \<Rightarrow> (string \<times> json) list \<Rightarrow> exn + http_response"

text \<open>\<^verbatim>\<open>float(v)\<close> on a decoded JSON value: a boolean is an int, None and containers raise.\<close>

definition py_float :: "env \<Rightarrow> json \<Rightarrow> exn + real" where
  "py_float env v =
     (case v of
        JNum x \<Rightarrow> Inr x
      | JBool b \<Rightarrow> Inr (if b then 1 else 0)
      | JStr s \<Rightarrow> (case float_of_str env s of Inl m \<Rightarrow> Inl (ValueError m) | Inr x \<Rightarrow> Inr x)
      | _ \<Rightarrow> Inl TypeError)"

text \<open>\<^verbatim>\<open>isoformat()\<close> of a naive datetime.\<close>

definition zfill :: "nat \<Rightarrow> string \<Rightarrow> string" where
  "zfill w s = replicate (w - length s) (CHR ''0'') @ s"

definition isoformat :: "datetime \<Rightarrow> string" where
  "isoformat d =
     zfill 4 (str_int (year d)) @ ''-'' @ pad2 (month d) @ ''-'' @ pad2 (day d) @ ''T''
       @ pad2 (hour d) @ '':'' @ pad2 (minute d) @ '':'' @ pad2 (second d)
       @ (if microsecond d = 0 then [] else ''.'' @ zfill 6 (str_int (microsecond d)))"

text \<open>\<^verbatim>\<open>jsonify({'error': msg})\<close>.\<close>

definition error_body :: "string \<Rightarrow> json" where
  "error_body msg = JObj [(''error'', JStr msg)]"

section \<open>predict (routes.py lines 47 to 169)\<close>

text \<open>
  Lines 61 to 72, the Request Validator: an exception, an early 400 response, or the
  coordinates.
\<close>

definition validate :: "env \<Rightarrow> json \<Rightarrow> exn + (response + real \<times> real)" where
  "validate env data =
     (case (if \<not> truthy data then Inr True
            else case py_in ''latitude'' data of
                   Inl e \<Rightarrow> Inl e
                 | Inr False \<Rightarrow> Inr True
                 | Inr True \<Rightarrow>
                     (case py_in ''longitude'' data of Inl e \<Rightarrow> Inl e | Inr b \<Rightarrow> Inr (\<not> b))) of
        Inl e \<Rightarrow> Inl e
      | Inr True \<Rightarrow> Inr (Inl (error_body ''Missing required fields: latitude, longitude'', 400))
      | Inr False \<Rightarrow>
          (case getitem data ''latitude'' of
             Inl e \<Rightarrow> Inl e
           | Inr v1 \<Rightarrow>
          (case py_float env v1 of
             Inl e \<Rightarrow> Inl e
           | Inr latitude \<Rightarrow>
          (case getitem data ''longitude'' of
             Inl e \<Rightarrow> Inl e
           | Inr v2 \<Rightarrow>
          (case py_float env v2 of
             Inl e \<Rightarrow> Inl e
           | Inr longitude \<Rightarrow>
               if \<not> (- 90 \<le> latitude \<and> latitude \<le> 90)
               then Inr (Inl (error_body ''Invalid latitude. Must be between -90 and 90'', 400))
               else if \<not> (- 180 \<le> longitude \<and> longitude \<le> 180)
               then Inr (Inl (error_body ''Invalid longitude. Must be between -180 and 180'', 400))
               else Inr (Inr (latitude, longitude)))))))"

text \<open>
  Lines 78 to 99, the Upstream Weather Client: an exception, an early 500 response, or
  the decoded forecast payload.
\<close>

definition fetch_forecast :: "env \<Rightarrow> real \<Rightarrow> real \<Rightarrow> exn + (response + payload)" where
  "fetch_forecast env latitude longitude =
     (case OPENWEATHER_API_KEY env of
        None \<Rightarrow> Inr (Inl (error_body ''OpenWeatherMap API key not configured'', 500))
      | Some api_key \<Rightarrow>
          if api_key = [] then Inr (Inl (error_body ''OpenWeatherMap API key not configured'', 500))
          else
            (case requests_get env ''https://api.openweathermap.org/data/2.5/forecast''
                    [(''lat'', JNum latitude), (''lon'', JNum longitude),
                     (''appid'', JStr api_key), (''units'', JStr ''metric'')] of
               Inl e \<Rightarrow> Inl e
             | Inr response \<Rightarrow>
                 if status_code response \<noteq> 200
                 then (case json_body response of
                         Inl e \<Rightarrow> Inl e
                       | Inr body \<Rightarrow>
                           Inr (Inl (error_body (''Weather API error: ''
                             @ field_get (message body) ''Could not retrieve forecast data''), 500)))
                 else (case json_body response of
                         Inl e \<Rightarrow> Inl e
                       | Inr forecast_data \<Rightarrow> Inr (Inr forecast_data))))"

text \<open>
  \<^verbatim>\<open>datetime.fromtimestamp(city.get(k, 0)).strftime('%H:%M:%S') if city.get(k) else 'N/A'\<close>
  (lines 157 and 158).
\<close>

definition sun_time :: "(int \<Rightarrow> int) \<Rightarrow> int option \<Rightarrow> exn + string" where
  "sun_time tz v =
     (if field_get v 0 \<noteq> 0
      then (case fromtimestamp tz (field_get v 0) of
              Inl e \<Rightarrow> Inl e
            | Inr d \<Rightarrow> Inr (strftime_H_M_S d))
      else Inr ''N/A'')"

text \<open>
  Lines 100 to 162: the aggregation and the success response. \<open>empty_city\<close> is the
  \<^verbatim>\<open>{}\<close> that stands in for a missing city block.
\<close>

definition empty_city :: city_block where
  "empty_city = \<lparr>name = None, country = None, sunrise = None, sunset = None\<rparr>"

definition forecast_response ::
  "env \<Rightarrow> real \<Rightarrow> real \<Rightarrow> json \<Rightarrow> payload \<Rightarrow> exn + response"
where
  "forecast_response env latitude longitude loc_name forecast_data =
     (let c = field_get (city forecast_data) empty_city;
          forecasts = field_get (forecast_list forecast_data) []
      in case aggregate (utcoffset env) forecasts of
           Inl e \<Rightarrow> Inl e
         | Inr predictions \<Rightarrow>
        (case sun_time (utcoffset env) (sunrise c) of
           Inl e \<Rightarrow> Inl e
         | Inr rise \<Rightarrow>
        (case sun_time (utcoffset env) (sunset c) of
           Inl e \<Rightarrow> Inl e
         | Inr sset \<Rightarrow>
             Inr (JObj
               [(''success'', JBool True),
                (''location'', JObj
                   [(''latitude'', JNum latitude),
                    (''longitude'', JNum longitude),
                    (''name'', (case name c of None \<Rightarrow> loc_name | Some n \<Rightarrow> JStr n)),
                    (''country'', JStr (field_get (country c) [])),
                    (''sunrise'', JStr rise),
                    (''sunset'', JStr sset)]),
                (''predictions'', JArr predictions),
                (''generated_at'', JStr (isoformat (utcnow env)))], 200))))"

text \<open>
  The body of the try statement. \<open>get_json\<close> is what \<^verbatim>\<open>request.get_json()\<close> does: it
  raises (a body that is not JSON) or returns the decoded body, \<open>JNull\<close> for Python's
  None.
\<close>

definition predict_try :: "env \<Rightarrow> exn + json \<Rightarrow> exn + response" where
  "predict_try env get_json =
     (case get_json of
        Inl e \<Rightarrow> Inl e
      | Inr data \<Rightarrow>
     (case validate env data of
        Inl e \<Rightarrow> Inl e
      | Inr (Inl early) \<Rightarrow> Inr early
      | Inr (Inr (latitude, longitude)) \<Rightarrow>
     (case py_get data ''location_name''
             (JStr (''Lat: '' @ str_of_float env latitude @ '', Lon: ''
                    @ str_of_float env longitude)) of
        Inl e \<Rightarrow> Inl e
      | Inr loc_name \<Rightarrow>
     (case fetch_forecast env latitude longitude of
        Inl e \<Rightarrow> Inl e
      | Inr (Inl early) \<Rightarrow> Inr early
      | Inr (Inr forecast_data) \<Rightarrow>
          forecast_response env latitude longitude loc_name forecast_data))))"

text \<open>The handler: lines 164 to 169 turn an exception into a response.\<close>

definition predict :: "env \<Rightarrow> exn + json \<Rightarrow> response" where
  "predict env get_json =
     (case predict_try env get_json of
        Inr r \<Rightarrow> r
      | Inl (ValueError m) \<Rightarrow> (error_body (''Invalid input: '' @ m), 400)
      | Inl _ \<Rightarrow> (error_body ''Failed to generate predictions'', 500))"

section \<open>get_current_weather (lines 172 to 223)\<close>

text \<open>
  \<open>args\<close> is \<^verbatim>\<open>request.args\<close>; \<^verbatim>\<open>request.args.get(k)\<close> is None for a missing
  parameter, and \<^verbatim>\<open>float(None)\<close> raises TypeError.
\<close>

definition float_arg :: "env \<Rightarrow> (string \<times> string) list \<Rightarrow> string \<Rightarrow> exn + real" where
  "float_arg env args k =
     (case map_of args k of
        None \<Rightarrow> Inl TypeError
      | Some s \<Rightarrow> (case float_of_str env s of Inl m \<Rightarrow> Inl (ValueError m) | Inr x \<Rightarrow> Inr x))"

definition get_current_weather_try :: "env \<Rightarrow> (string \<times> string) list \<Rightarrow> exn + response" where
  "get_current_weather_try env args =
     (case float_arg env args ''latitude'' of
        Inl e \<Rightarrow> Inl e
      | Inr lat \<Rightarrow>
     (case float_arg env args ''longitude'' of
        Inl e \<Rightarrow> Inl e
      | Inr lon \<Rightarrow>
     (case OPENWEATHER_API_KEY env of
        None \<Rightarrow> Inr (error_body ''OpenWeatherMap API key not configured'', 500)
      | Some api_key \<Rightarrow>
          if api_key = [] then Inr (error_body ''OpenWeatherMap API key not configured'', 500)
          else
     (case requests_get env ''https://api.openweathermap.org/data/2.5/weather''
             [(''lat'', JNum lat), (''lon'', JNum lon),
              (''appid'', JStr api_key), (''units'', JStr ''metric'')] of
        Inl e \<Rightarrow> Inl e
      | Inr response \<Rightarrow>
          if status_code response \<noteq> 200
          then (case json_body response of
                  Inl e \<Rightarrow> Inl e
                | Inr body \<Rightarrow>
                    Inr (error_body (''Weather API error: ''
                      @ field_get (message body) ''Could not retrieve weather data''), 500))
          else
     (case json_body response of
        Inl e \<Rightarrow> Inl e
      | Inr weather_data \<Rightarrow>
     (case main_now weather_data of
        None \<Rightarrow> Inl KeyError
      | Some m \<Rightarrow>
     (case wind_now weather_data of
        None \<Rightarrow> Inl KeyError
      | Some w \<Rightarrow>
     (case weather_now weather_data of
        None \<Rightarrow> Inl KeyError
      | Some [] \<Rightarrow> Inl IndexError
      | Some (wx # _) \<Rightarrow>
          Inr (JObj
            [(''success'', JBool True),
             (''data'', JObj
                [(''timestamp'', JStr (isoformat (utcnow env))),
                 (''latitude'', JNum lat),
                 (''longitude'', JNum lon),
                 (''location_name'', JStr (field_get (place_name weather_data) [])),
                 (''temperature'', JNum (temp m)),
                 (''humidity'', JNum (humidity m)),
                 (''pressure'', JNum (pressure m)),
                 (''wind_speed'', JNum (speed w)),
                 (''weather_description'', JStr (description wx)),
                 (''weather_icon'', JStr (icon wx))])], 200)))))))))"

definition get_current_weather :: "env \<Rightarrow> (string \<times> string) list \<Rightarrow> response" where
  "get_current_weather env args =
     (case get_current_weather_try env args of
        Inr r \<Rightarrow> r
      | Inl e \<Rightarrow> (error_body ''Failed to fetch weather data'', 500))"

section \<open>train_model (lines 317 to 344)\<close>

text \<open>\<^verbatim>\<open>data.get\<close> raises AttributeError when \<open>data\<close> is None or any value but a dict.\<close>

definition train_model_try :: "exn + json \<Rightarrow> exn + response" where
  "train_model_try get_json =
     (case get_json of
        Inl e \<Rightarrow> Inl e
      | Inr data \<Rightarrow>
     (case py_get data ''model_type'' (JStr ''ensemble'') of
        Inl e \<Rightarrow> Inl e
      | Inr model_type \<Rightarrow>
     (case py_get data ''event_type'' JNull of
        Inl e \<Rightarrow> Inl e
      | Inr event_type \<Rightarrow>
          Inr (JObj
            [(''success'', JBool True),
             (''message'', JStr ''Training initiated''),
             (''model_type'', model_type),
             (''event_type'', event_type),
             (''status'', JStr ''queued'')], 200))))"

definition train_model :: "exn + json \<Rightarrow> response" where
  "train_model get_json =
     (case train_model_try get_json of
        Inr r \<Rightarrow> r
      | Inl e \<Rightarrow> (error_body ''Failed to initiate training'', 500))"

section \<open>get_prediction_history (lines 262 to 291)\<close>

text \<open>A row of the table \<^verbatim>\<open>predictions\<close> (models.py, class Prediction).\<close>

record prediction =
  row_id :: int
  created_at :: datetime
  prediction_date :: datetime
  latitude :: real
  longitude :: real
  location_name :: "string option"
  event_type :: "string option"
  probability :: "real option"
  confidence :: "real option"
  predicted_temperature :: "real option"
  predicted_precipitation :: "real option"
  predicted_wind_speed :: "real option"
  model_name :: "string option"
  model_version :: "string option"
  additional_info :: "string option"



text \<open>
  The query: SQL's BETWEEN, \<^verbatim>\<open>ORDER BY created_at DESC\<close> (rows with equal keys stay in
  scan order, which SQL leaves open) and LIMIT, which in SQLite, the database of
  config.py, means no bound when negative.
\<close>

definition between :: "real \<Rightarrow> real \<Rightarrow> real \<Rightarrow> bool" where
  "between x lo hi = (lo \<le> x \<and> x \<le> hi)"









section \<open>Notions the properties of the aggregator are stated with\<close>

text \<open>
  The local calendar date and hour of a sample, the dict value built from it, and the
  condition under which \<open>fromtimestamp\<close> accepts its timestamp.
\<close>

definition date_of :: "(int \<Rightarrow> int) \<Rightarrow> sample \<Rightarrow> date_key" where
  "date_of tz f = strftime_Ymd (localtime tz (dt f))"

definition hour_of :: "(int \<Rightarrow> int) \<Rightarrow> sample \<Rightarrow> int" where
  "hour_of tz f = hour (localtime tz (dt f))"

definition entry_of :: "(int \<Rightarrow> int) \<Rightarrow> sample \<Rightarrow> entry" where
  "entry_of tz f = \<lparr>entry_dt = dt f, timestamp = localtime tz (dt f), forecast = f\<rparr>"

definition in_range :: "(int \<Rightarrow> int) \<Rightarrow> sample \<Rightarrow> bool" where
  "in_range tz f = (1 \<le> year (localtime tz (dt f)) \<and> year (localtime tz (dt f)) \<le> 9999)"

text \<open>
  The selection rule in the specification's words: among the samples of a date, in
  order, the first is retained, and a later one at hour 12 replaces what is retained.
\<close>

definition retained :: "(int \<Rightarrow> int) \<Rightarrow> sample list \<Rightarrow> date_key \<Rightarrow> sample option" where
  "retained tz fs k =
     (case filter (\<lambda>f. date_of tz f = k) fs of
        [] \<Rightarrow> None
      | s # later \<Rightarrow>
          (case filter (\<lambda>f. hour_of tz f = 12) later of
             [] \<Rightarrow> Some s
           | n # ns \<Rightarrow> Some (last (n # ns))))"

text \<open>One turn of the loop of line 105 on a sample in range, and its effect on one key.\<close>

definition group_step ::
  "(int \<Rightarrow> int) \<Rightarrow> (date_key \<times> entry) list \<Rightarrow> sample \<Rightarrow> (date_key \<times> entry) list"
where
  "group_step tz daily f =
     (if date_of tz f \<notin> fst ` set daily \<or> hour_of tz f = 12
      then AList.update (date_of tz f) (entry_of tz f) daily else daily)"

fun pick :: "(int \<Rightarrow> int) \<Rightarrow> entry option \<Rightarrow> sample list \<Rightarrow> entry option" where
  "pick tz cur [] = cur"
| "pick tz cur (f # fs) =
     pick tz (if cur = None \<or> hour_of tz f = 12 then Some (entry_of tz f) else cur) fs"

text \<open>The sort key of line 118, and reading a key of a JSON object.\<close>

definition sort_stamp ::
  "date_key \<times> entry \<Rightarrow> int \<times> int \<times> int \<times> int \<times> int \<times> int \<times> int"
where
  "sort_stamp x = cmp_key (timestamp (snd x))"

definition member :: "json \<Rightarrow> string \<Rightarrow> json option" where
  "member j k = (case j of JObj kvs \<Rightarrow> map_of kvs k | _ \<Rightarrow> None)"

text \<open>
  The 3-hour accumulation of a rain or snow block in the specification's words: 0 when
  the block or its \<^verbatim>\<open>'3h'\<close> entry is missing.
\<close>

definition three_hour :: "(string \<times> real) list option \<Rightarrow> real" where
  "three_hour block =
     (case block of
        None \<Rightarrow> 0
      | Some d \<Rightarrow> (case map_of d ''3h'' of None \<Rightarrow> 0 | Some v \<Rightarrow> v))"



section \<open>Concrete inputs\<close>

text \<open>A server on UTC, and samples that differ in their timestamp only.\<close>

definition utc :: "int \<Rightarrow> int" where
  "utc t = 0"

definition sample_at :: "int \<Rightarrow> sample" where
  "sample_at t =
     \<lparr>dt = t,
      main = \<lparr>temp = 20.56, feels_like = 19.25, temp_min = 18.31, temp_max = 22,
              humidity = 60, pressure = 1012\<rparr>,
      wind = \<lparr>speed = 3.47, deg = 180\<rparr>,
      clouds_all = 40,
      weather = [\<lparr>description = ''light rain'', icon = ''10d''\<rparr>],
      visibility = Some 10000,
      rain = Some [(''3h'', 2.5)],
      snow = None\<rparr>"

text \<open>
  2024-01-15 at 09:00, 12:00 and 15:00, then 2024-01-16 at 00:00, 03:00, 06:00 and
  09:00 (UTC).
\<close>

definition two_days :: "sample list" where
  "two_days = map sample_at
     [1705309200, 1705320000, 1705330800, 1705363200, 1705374000, 1705384800, 1705395600]"

text \<open>Noon of 2024-01-15 to 2024-01-21 (UTC), one sample a day, out of order.\<close>

definition seven_days :: "sample list" where
  "seven_days = map sample_at
     [1705579200, 1705320000, 1705838400, 1705406400, 1705752000, 1705492800, 1705665600]"

text \<open>
  Items of the formatting loop: the noon sample of 2024-01-15, the same with rain and
  snow, and the same with no rain, snow or visibility field.
\<close>

definition noon_item :: "date_key \<times> entry" where
  "noon_item = ((2024, 1, 15), entry_of utc (sample_at 1705320000))"

definition snowy_item :: "date_key \<times> entry" where
  "snowy_item = ((2024, 1, 15),
     entry_of utc (sample_at 1705320000\<lparr>rain := Some [(''3h'', 1.0)], snow := Some [(''3h'', 0.5)]\<rparr>))"

definition dry_item :: "date_key \<times> entry" where
  "dry_item = ((2024, 1, 15),
     entry_of utc (sample_at 1705320000\<lparr>visibility := None, rain := None, snow := None\<rparr>))"

text \<open>
  An environment: a float parser that knows a few texts, a server on UTC with a
  configured key, and an upstream that answers 200 with an empty list. How a float is
  printed is not modelled; this environment prints every float as x.
\<close>

definition test_float :: "string \<Rightarrow> string + real" where
  "test_float s =
     (if s = ''51.5'' then Inr 51.5
      else if s = ''-0.12'' then Inr (- 0.12)
      else if s = ''0.0'' then Inr 0
      else if s = ''20'' then Inr 20
      else Inl (''could not convert string to float: '' @ s))"

definition test_int :: "string \<Rightarrow> int option" where
  "test_int s = (if s = ''1'' then Some 1 else if s = ''10'' then Some 10 else None)"

definition empty_forecast :: http_response where
  "empty_forecast =
     \<lparr>status_code = 200,
      json_body = Inr \<lparr>message = None, city = None, forecast_list = Some [],
        place_name = None, main_now = None, wind_now = None, weather_now = None\<rparr>\<rparr>"

definition test_env :: env where
  "test_env =
     \<lparr>float_of_str = test_float,
      int_of_str = test_int,
      str_of_float = (\<lambda>x. ''x''),
      utcoffset = utc,
      utcnow = \<lparr>year = 2024, month = 1, day = 15, hour = 8, minute = 30, second = 0,
                 microsecond = 0\<rparr>,
      OPENWEATHER_API_KEY = Some ''k'',
      requests_get = (\<lambda>url params. Inr empty_forecast)\<rparr>"




text \<open>Request bodies of predict.\<close>

definition london :: "(string \<times> json) list" where
  "london = [(''latitude'', JNum 51.5), (''longitude'', JNum (- 0.12))]"




section \<open>The grouping loop\<close>

lemma fromtimestamp_in_range:
  "in_range tz f \<Longrightarrow> fromtimestamp tz (dt f) = Inr (localtime tz (dt f))"
  by (simp add: fromtimestamp_def in_range_def Let_def)

lemma fromtimestamp_out_of_range:
  "\<not> in_range tz f \<Longrightarrow> \<exists>e. fromtimestamp tz (dt f) = Inl e"
  by (auto simp add: fromtimestamp_def in_range_def Let_def)

lemma loop_step:
  "in_range tz f \<Longrightarrow>
   daily_forecasts_loop tz daily (f # fs) = daily_forecasts_loop tz (group_step tz daily f) fs"
  by (simp add: fromtimestamp_in_range group_step_def date_of_def hour_of_def entry_of_def Let_def)

lemma loop_foldl:
  "\<forall>f\<in>set fs. in_range tz f \<Longrightarrow>
   daily_forecasts_loop tz daily fs = Inr (foldl (group_step tz) daily fs)"
proof (induction fs arbitrary: daily)
  case Nil
  show ?case by simp
next
  case (Cons f fs)
  then show ?case by (simp add: loop_step del: daily_forecasts_loop.simps)
qed

lemma loop_raises:
  "\<not> (\<forall>f\<in>set fs. in_range tz f) \<Longrightarrow> \<exists>e. daily_forecasts_loop tz daily fs = Inl e"
proof (induction fs arbitrary: daily)
  case Nil
  then show ?case by simp
next
  case (Cons f fs)
  show ?case
  proof (cases "in_range tz f")
    case True
    with Cons.prems have "\<not> (\<forall>f\<in>set fs. in_range tz f)" by simp
    from Cons.IH [OF this] True show ?thesis by (simp add: loop_step del: daily_forecasts_loop.simps)
  next
    case False
    from fromtimestamp_out_of_range [OF this] show ?thesis by auto
  qed
qed

lemma map_of_None_iff: "map_of al k = None \<longleftrightarrow> k \<notin> fst ` set al"
  by (simp add: map_of_eq_None_iff)

lemma map_of_group_step:
  "map_of (group_step tz daily f) k =
     (if date_of tz f = k
      then (if map_of daily k = None \<or> hour_of tz f = 12 then Some (entry_of tz f) else map_of daily k)
      else map_of daily k)"
  by (auto simp add: group_step_def AList.update_conv' map_of_None_iff)

lemma map_of_foldl_group_step:
  "map_of (foldl (group_step tz) daily fs) k =
     pick tz (map_of daily k) (filter (\<lambda>f. date_of tz f = k) fs)"
proof (induction fs arbitrary: daily)
  case Nil
  show ?case by simp
next
  case (Cons f fs)
  show ?case by (simp add: Cons.IH map_of_group_step)
qed

lemma pick_Some:
  "pick tz (Some e) fs =
     (case filter (\<lambda>f. hour_of tz f = 12) fs of
        [] \<Rightarrow> Some e
      | n # ns \<Rightarrow> Some (entry_of tz (last (n # ns))))"
proof (induction fs arbitrary: e)
  case Nil
  show ?case by simp
next
  case (Cons f fs)
  show ?case by (simp add: Cons.IH split: list.split)
qed

lemma pick_None:
  "pick tz None fs = map_option (entry_of tz)
     (case fs of [] \<Rightarrow> None
      | s # later \<Rightarrow> (case filter (\<lambda>f. hour_of tz f = 12) later of
                         [] \<Rightarrow> Some s | n # ns \<Rightarrow> Some (last (n # ns))))"
  by (cases fs) (simp_all add: pick_Some split: list.split)

lemma distinct_group_step:
  "distinct (map fst daily) \<Longrightarrow> distinct (map fst (group_step tz daily f))"
  by (simp add: group_step_def AList.distinct_update)

lemma distinct_foldl_group_step:
  "distinct (map fst daily) \<Longrightarrow> distinct (map fst (foldl (group_step tz) daily fs))"
  by (induction fs arbitrary: daily) (simp_all add: distinct_group_step)

lemma keys_group_step:
  "fst ` set (group_step tz daily f) = insert (date_of tz f) (fst ` set daily)"
  by (simp add: group_step_def AList.dom_update insert_absorb)

lemma keys_foldl_group_step:
  "fst ` set (foldl (group_step tz) daily fs) = fst ` set daily \<union> date_of tz ` set fs"
  by (induction fs arbitrary: daily) (auto simp add: keys_group_step)

lemma map_of_daily_forecasts:
  assumes "daily_forecasts tz fs = Inr daily"
  shows "map_of daily k = map_option (entry_of tz) (retained tz fs k)"
proof -
  have r: "\<forall>f\<in>set fs. in_range tz f"
    using assms loop_raises [of fs tz "[]"] by (auto simp add: daily_forecasts_def)
  have "daily = foldl (group_step tz) [] fs"
    using assms loop_foldl [OF r, of "[]"] by (simp add: daily_forecasts_def)
  then show ?thesis
    by (simp add: map_of_foldl_group_step pick_None retained_def)
qed

lemma retained_unfold:
  "filter (\<lambda>f. date_of tz f = k) fs = s # later \<Longrightarrow>
   retained tz fs k =
     (case filter (\<lambda>f. hour_of tz f = 12) later of
        [] \<Rightarrow> Some s | n # ns \<Rightarrow> Some (last (n # ns)))"
  by (simp add: retained_def)



lemma daily_forecasts_returns:
  "\<forall>f\<in>set fs. in_range tz f \<Longrightarrow> daily_forecasts tz fs = Inr (foldl (group_step tz) [] fs)"
  by (simp add: daily_forecasts_def loop_foldl)

lemma daily_forecasts_in_range:
  assumes "daily_forecasts tz fs = Inr daily"
  shows "\<forall>f\<in>set fs. in_range tz f"
proof (rule ccontr)
  assume "\<not> (\<forall>f\<in>set fs. in_range tz f)"
  then obtain e where "daily_forecasts_loop tz [] fs = Inl e"
    using loop_raises by blast
  with assms show False by (simp add: daily_forecasts_def)
qed

lemma daily_forecasts_eq:
  assumes "daily_forecasts tz fs = Inr daily"
  shows "daily = foldl (group_step tz) [] fs"
proof -
  have "daily_forecasts tz fs = Inr (foldl (group_step tz) [] fs)"
    by (rule daily_forecasts_returns) (rule daily_forecasts_in_range [OF assms])
  with assms show ?thesis by simp
qed

lemma daily_forecasts_distinct:
  assumes "daily_forecasts tz fs = Inr daily"
  shows "distinct (map fst daily)"
  unfolding daily_forecasts_eq [OF assms]
  by (rule distinct_foldl_group_step) simp

lemma daily_forecasts_keys:
  assumes "daily_forecasts tz fs = Inr daily"
  shows "fst ` set daily = date_of tz ` set fs"
  unfolding daily_forecasts_eq [OF assms]
  by (simp add: keys_foldl_group_step)




lemma two_days_daily: "daily_forecasts utc two_days =
   Inr [((2024, 1, 15), entry_of utc (sample_at 1705320000)), ((2024, 1, 16), entry_of utc (sample_at 1705363200))]"
  by code_simp

section \<open>The formatting loop, sorting and truncation\<close>

lemma sorted_forecasts_alt: "sorted_forecasts daily = take 5 (sort_key sort_stamp daily)"
  by (simp add: sorted_forecasts_def sort_stamp_def [abs_def])

lemma predictions_loop_Inr:
  "predictions_loop acc idx items = Inr ps \<longleftrightarrow>
     (\<exists>qs. ps = acc @ qs \<and> length qs = length items
        \<and> (\<forall>i<length items. format_prediction (idx + i) (items ! i) = Inr (qs ! i)))"
proof (induction items arbitrary: acc idx)
  case Nil
  show ?case by auto
next
  case (Cons item items)
  show ?case
  proof (cases "format_prediction idx item")
    case (Inl e)
    have "\<not> (\<exists>qs. ps = acc @ qs \<and> length qs = length (item # items)
        \<and> (\<forall>i<length (item # items). format_prediction (idx + i) ((item # items) ! i) = Inr (qs ! i)))"
    proof
      assume "\<exists>qs. ps = acc @ qs \<and> length qs = length (item # items)
        \<and> (\<forall>i<length (item # items). format_prediction (idx + i) ((item # items) ! i) = Inr (qs ! i))"
      then obtain qs where
        "\<forall>i<length (item # items). format_prediction (idx + i) ((item # items) ! i) = Inr (qs ! i)"
        by blast
      then have "format_prediction (idx + 0) ((item # items) ! 0) = Inr (qs ! 0)" by blast
      with Inl show False by simp
    qed
    with Inl show ?thesis by simp
  next
    case (Inr p)
    have "predictions_loop acc idx (item # items) = predictions_loop (acc @ [p]) (Suc idx) items"
      by (simp add: Inr)
    also have "\<dots> = Inr ps \<longleftrightarrow>
      (\<exists>qs. ps = (acc @ [p]) @ qs \<and> length qs = length items
        \<and> (\<forall>i<length items. format_prediction (Suc idx + i) (items ! i) = Inr (qs ! i)))"
      by (rule Cons.IH)
    also have "\<dots> \<longleftrightarrow>
      (\<exists>qs. ps = acc @ qs \<and> length qs = length (item # items)
        \<and> (\<forall>i<length (item # items). format_prediction (idx + i) ((item # items) ! i) = Inr (qs ! i)))"
      (is "?L \<longleftrightarrow> ?R")
    proof
      assume ?L
      then obtain qs where q: "ps = (acc @ [p]) @ qs" "length qs = length items"
        "\<forall>i<length items. format_prediction (Suc idx + i) (items ! i) = Inr (qs ! i)" by blast
      have "\<forall>i<length (item # items). format_prediction (idx + i) ((item # items) ! i) = Inr ((p # qs) ! i)"
      proof (intro allI impI)
        fix i assume "i < length (item # items)"
        then show "format_prediction (idx + i) ((item # items) ! i) = Inr ((p # qs) ! i)"
          using q(3) Inr by (cases i) simp_all
      qed
      with q(1,2) have "ps = acc @ (p # qs) \<and> length (p # qs) = length (item # items)
        \<and> (\<forall>i<length (item # items). format_prediction (idx + i) ((item # items) ! i) = Inr ((p # qs) ! i))"
        by simp
      then show ?R by (rule exI [where x = "p # qs"])
    next
      assume ?R
      then obtain qs where q: "ps = acc @ qs" "length qs = length (item # items)"
        "\<forall>i<length (item # items). format_prediction (idx + i) ((item # items) ! i) = Inr (qs ! i)" by blast
      from q(2) obtain q0 qs' where qs: "qs = q0 # qs'" by (cases qs) simp_all
      from q(3) have "format_prediction (idx + 0) ((item # items) ! 0) = Inr (qs ! 0)" by blast
      with Inr qs have q0: "q0 = p" by simp
      have "\<forall>i<length items. format_prediction (Suc idx + i) (items ! i) = Inr (qs' ! i)"
      proof (intro allI impI)
        fix i assume "i < length items"
        then have "Suc i < length (item # items)" by simp
        with q(3) have "format_prediction (idx + Suc i) ((item # items) ! Suc i) = Inr (qs ! Suc i)"
          by blast
        then show "format_prediction (Suc idx + i) (items ! i) = Inr (qs' ! i)"
          by (simp add: qs)
      qed
      with q(1,2) qs q0 have "ps = (acc @ [p]) @ qs' \<and> length qs' = length items
        \<and> (\<forall>i<length items. format_prediction (Suc idx + i) (items ! i) = Inr (qs' ! i))"
        by simp
      then show ?L by (rule exI [where x = qs'])
    qed
    finally show ?thesis .
  qed
qed

lemma format_prediction_returns:
  "weather (forecast (snd item)) \<noteq> [] \<Longrightarrow> \<exists>p. format_prediction idx item = Inr p"
  by (cases "weather (forecast (snd item))") (simp_all add: format_prediction_def Let_def)

lemma predictions_loop_returns:
  "\<forall>item\<in>set items. weather (forecast (snd item)) \<noteq> [] \<Longrightarrow>
   \<exists>ps. predictions_loop acc idx items = Inr ps"
proof (induction items arbitrary: acc idx)
  case Nil
  show ?case by simp
next
  case (Cons item items)
  from Cons.prems have "weather (forecast (snd item)) \<noteq> []" by simp
  from format_prediction_returns [OF this] obtain p where p: "format_prediction idx item = Inr p"
    by blast
  from Cons.prems have "\<forall>item\<in>set items. weather (forecast (snd item)) \<noteq> []" by simp
  from Cons.IH [OF this] obtain ps where "predictions_loop (acc @ [p]) (Suc idx) items = Inr ps"
    by blast
  with p show ?case by simp
qed

lemma format_prediction_day_offset:
  "format_prediction idx item = Inr p \<Longrightarrow> member p ''day_offset'' = Some (JNum (of_nat idx))"
  by (cases "weather (forecast (snd item))") (auto simp add: format_prediction_def Let_def member_def)

lemma retained_Some:
  assumes "retained tz fs k = Some r"
  shows "r \<in> set fs \<and> date_of tz r = k"
proof -
  define xs where "xs = filter (\<lambda>f. date_of tz f = k) fs"
  have sub: "f \<in> set fs \<and> date_of tz f = k" if "f \<in> set xs" for f
    using that by (simp add: xs_def)
  have "r \<in> set xs"
  proof (cases xs)
    case Nil
    with assms show ?thesis by (simp add: retained_def xs_def [symmetric])
  next
    case (Cons s later)
    then have u: "retained tz fs k =
       (case filter (\<lambda>f. hour_of tz f = 12) later of
          [] \<Rightarrow> Some s | n # ns \<Rightarrow> Some (last (n # ns)))"
      by (intro retained_unfold) (simp add: xs_def)
    show ?thesis
    proof (cases "filter (\<lambda>f. hour_of tz f = 12) later")
      case Nil
      with u assms have "r = s" by simp
      with Cons show ?thesis by simp
    next
      case c: (Cons n ns)
      with u assms have "r = last (n # ns)" by simp
      moreover have "last (n # ns) \<in> set (n # ns)" by (rule last_in_set) simp
      ultimately have "r \<in> set (filter (\<lambda>f. hour_of tz f = 12) later)" by (simp only: c)
      then have "r \<in> set later" by simp
      with Cons show ?thesis by simp
    qed
  qed
  then show ?thesis by (rule sub)
qed

lemma daily_forecasts_entry:
  assumes "daily_forecasts tz fs = Inr daily" and "(k, e) \<in> set daily"
  shows "\<exists>r. e = entry_of tz r \<and> r \<in> set fs \<and> date_of tz r = k"
proof -
  have "distinct (map fst daily)" using assms(1) by (rule daily_forecasts_distinct)
  with assms(2) have "map_of daily k = Some e" by simp
  then have "map_option (entry_of tz) (retained tz fs k) = Some e"
    by (simp only: map_of_daily_forecasts [OF assms(1)])
  then obtain r where r: "retained tz fs k = Some r" and e: "e = entry_of tz r"
    by (cases "retained tz fs k") auto
  from retained_Some [OF r] e show ?thesis by blast
qed

lemma daily_forecasts_length:
  assumes "daily_forecasts tz fs = Inr daily"
  shows "length daily = card (date_of tz ` set fs)"
proof -
  have "card (set (map fst daily)) = length (map fst daily)"
    by (rule distinct_card) (rule daily_forecasts_distinct [OF assms])
  then show ?thesis by (simp add: daily_forecasts_keys [OF assms])
qed

lemma cmp_key_date_mono:
  "cmp_key a \<le> cmp_key b \<Longrightarrow> strftime_Ymd a \<le> strftime_Ymd b"
  by (auto simp add: cmp_key_def strftime_Ymd_def less_eq_prod_def less_prod_def)

lemma sorted_take_drop:
  assumes "sorted (map f xs)" and "y \<in> set (take n xs)" and "x \<in> set (drop n xs)"
  shows "f y \<le> f x"
proof -
  have "sorted (map f (take n xs) @ map f (drop n xs))"
    using assms(1) by (simp only: map_append [symmetric] append_take_drop_id)
  then show ?thesis using assms(2,3) by (auto simp add: sorted_append)
qed

lemma entry_of_simps:
  "forecast (entry_of tz r) = r" "timestamp (entry_of tz r) = localtime tz (dt r)"
  by (simp_all add: entry_of_def)

lemma aggregate_Inr:
  "aggregate tz fs = Inr ps \<longleftrightarrow>
     (\<exists>daily. daily_forecasts tz fs = Inr daily
        \<and> predictions_loop [] 0 (sorted_forecasts daily) = Inr ps)"
  by (cases "daily_forecasts tz fs") (simp_all add: aggregate_def)

lemma set_sorted_forecasts: "set (sorted_forecasts daily) \<subseteq> set daily"
proof -
  have "set (take 5 (sort_key sort_stamp daily)) \<subseteq> set (sort_key sort_stamp daily)"
    by (rule set_take_subset)
  then show ?thesis by (simp add: sorted_forecasts_alt)
qed

lemma length_sorted_forecasts: "length (sorted_forecasts daily) = min 5 (length daily)"
  by (simp add: sorted_forecasts_alt min.commute)

lemma aggregate_returns:
  assumes "\<forall>f\<in>set fs. in_range tz f \<and> weather f \<noteq> []"
  shows "\<exists>ps. aggregate tz fs = Inr ps"
proof -
  from assms have "\<forall>f\<in>set fs. in_range tz f" by blast
  then have d: "daily_forecasts tz fs = Inr (foldl (group_step tz) [] fs)"
    by (rule daily_forecasts_returns)
  define daily where "daily = foldl (group_step tz) [] fs"
  have "\<forall>item\<in>set (sorted_forecasts daily). weather (forecast (snd item)) \<noteq> []"
  proof
    fix item assume "item \<in> set (sorted_forecasts daily)"
    with set_sorted_forecasts have "(fst item, snd item) \<in> set daily" by auto
    from daily_forecasts_entry [OF d [folded daily_def] this]
    obtain r where "snd item = entry_of tz r" and "r \<in> set fs" by blast
    with assms show "weather (forecast (snd item)) \<noteq> []" by (simp add: entry_of_simps)
  qed
  from predictions_loop_returns [OF this]
  obtain ps where "predictions_loop [] 0 (sorted_forecasts daily) = Inr ps" by blast
  with d [folded daily_def] have "aggregate tz fs = Inr ps" by (simp add: aggregate_def)
  then show ?thesis by (rule exI)
qed

lemma daily_forecasts_key_stamp:
  assumes "daily_forecasts tz fs = Inr daily" and "x \<in> set daily"
  shows "fst x = strftime_Ymd (timestamp (snd x))"
proof -
  from assms(2) have "(fst x, snd x) \<in> set daily" by simp
  from daily_forecasts_entry [OF assms(1) this]
  obtain r where "snd x = entry_of tz r" and "date_of tz r = fst x" by blast
  then show ?thesis by (simp add: entry_of_simps date_of_def)
qed

lemma sorted_forecasts_earliest:
  assumes d: "daily_forecasts tz fs = Inr daily"
    and y: "y \<in> set (sorted_forecasts daily)"
    and x: "x \<in> set daily" "x \<notin> set (sorted_forecasts daily)"
  shows "fst y < fst x"
proof -
  define srt where "srt = sort_key sort_stamp daily"
  have sel: "sorted_forecasts daily = take 5 srt" by (simp add: sorted_forecasts_alt srt_def)
  have "set srt = set daily" by (simp add: srt_def)
  moreover have "set srt = set (take 5 srt) \<union> set (drop 5 srt)"
    by (simp only: set_append [symmetric] append_take_drop_id)
  ultimately have "x \<in> set (take 5 srt) \<union> set (drop 5 srt)" using x(1) by simp
  with x(2) have xd: "x \<in> set (drop 5 srt)" by (simp add: sel)
  have "sorted (map sort_stamp srt)" by (simp add: srt_def)
  from sorted_take_drop [OF this y [unfolded sel] xd]
  have "cmp_key (timestamp (snd y)) \<le> cmp_key (timestamp (snd x))" by (simp add: sort_stamp_def)
  then have "strftime_Ymd (timestamp (snd y)) \<le> strftime_Ymd (timestamp (snd x))"
    by (rule cmp_key_date_mono)
  moreover from y set_sorted_forecasts have yd: "y \<in> set daily" by blast
  ultimately have le: "fst y \<le> fst x"
    by (simp add: daily_forecasts_key_stamp [OF d yd] daily_forecasts_key_stamp [OF d x(1)])
  have "fst y \<noteq> fst x"
  proof
    assume "fst y = fst x"
    moreover have "inj_on fst (set daily)"
      using daily_forecasts_distinct [OF d] by (simp add: distinct_map)
    ultimately have "y = x" using yd x(1) by (simp add: inj_on_def)
    with y x(2) show False by simp
  qed
  with le show ?thesis by simp
qed

lemma sorted_forecasts_strict:
  assumes d: "daily_forecasts tz fs = Inr daily"
  shows "sorted_wrt (<) (map fst (sorted_forecasts daily))"
proof -
  define srt where "srt = sort_key sort_stamp daily"
  have sel: "sorted_forecasts daily = take 5 srt" by (simp add: sorted_forecasts_alt srt_def)
  have s: "set srt = set daily" by (simp add: srt_def)
  have "sorted (map sort_stamp srt)" by (simp add: srt_def)
  then have "sorted_wrt (\<lambda>a b. sort_stamp a \<le> sort_stamp b) srt"
    by (simp add: sorted_map)
  then have "sorted_wrt (\<lambda>a b. fst a \<le> fst b) srt"
  proof (rule sorted_wrt_mono_rel [rotated])
    fix a b assume a: "a \<in> set srt" and b: "b \<in> set srt" and "sort_stamp a \<le> sort_stamp b"
    then have "strftime_Ymd (timestamp (snd a)) \<le> strftime_Ymd (timestamp (snd b))"
      by (simp add: sort_stamp_def cmp_key_date_mono)
    then show "fst a \<le> fst b"
      using a b by (simp add: s daily_forecasts_key_stamp [OF d])
  qed
  then have "sorted (map fst srt)" by (simp add: sorted_map)
  moreover have "distinct (map fst srt)"
  proof -
    have dd: "distinct daily \<and> inj_on fst (set daily)"
      using daily_forecasts_distinct [OF d] by (simp add: distinct_map)
    then have "distinct srt \<and> inj_on fst (set srt)" by (simp add: srt_def)
    then show ?thesis by (simp add: distinct_map)
  qed
  ultimately have "sorted_wrt (<) (map fst srt)" by (simp add: strict_sorted_iff)
  then have "sorted_wrt (<) (take 5 (map fst srt))" by (rule sorted_wrt_take)
  then show ?thesis by (simp add: sel take_map)
qed

lemma aggregate_format:
  assumes "aggregate tz fs = Inr ps"
  shows "\<exists>daily. daily_forecasts tz fs = Inr daily
           \<and> length ps = length (sorted_forecasts daily)
           \<and> (\<forall>i<length ps. format_prediction i (sorted_forecasts daily ! i) = Inr (ps ! i))"
proof -
  from assms obtain daily where d: "daily_forecasts tz fs = Inr daily"
    and l: "predictions_loop [] 0 (sorted_forecasts daily) = Inr ps"
    by (auto simp add: aggregate_Inr)
  from l obtain qs where q: "ps = [] @ qs" "length qs = length (sorted_forecasts daily)"
    "\<forall>i<length (sorted_forecasts daily).
       format_prediction (0 + i) (sorted_forecasts daily ! i) = Inr (qs ! i)"
    unfolding predictions_loop_Inr by blast
  then have "length ps = length (sorted_forecasts daily)
           \<and> (\<forall>i<length ps. format_prediction i (sorted_forecasts daily ! i) = Inr (ps ! i))"
    by simp
  with d show ?thesis by blast
qed

lemma seven_days_ok: "\<forall>f\<in>set seven_days. in_range utc f \<and> weather f \<noteq> []"
  by code_simp

lemma seven_days_card: "card (date_of utc ` set seven_days) = 7"
  by code_simp

lemma seven_days_labels:
  "map_sum id (map (\<lambda>p. member p ''date'')) (aggregate utc seven_days) =
     Inr [Some (JStr ''Monday, Jan 15''), Some (JStr ''Tuesday, Jan 16''),
          Some (JStr ''Wednesday, Jan 17''), Some (JStr ''Thursday, Jan 18''),
          Some (JStr ''Friday, Jan 19'')]"
  by code_simp

section \<open>The summary of one sample\<close>

lemma precipitation_three_hour:
  "precipitation f = three_hour (rain f) + three_hour (snow f)"
  by (simp add: precipitation_def three_hour_def dict_get_def field_get_def split: option.split)

lemma format_prediction_Inr:
  assumes "format_prediction idx item = Inr p"
  shows "\<exists>wx rest. weather (forecast (snd item)) = wx # rest \<and>
     p = JObj
       [(''day_offset'', JNum (of_nat idx)),
        (''date'', JStr (strftime_A_b_d (timestamp (snd item)))),
        (''full_datetime'', JStr (strftime_A_b_d_H_M (timestamp (snd item)))),
        (''temperature'', JNum (py_round (temp (main (forecast (snd item)))) 1)),
        (''feels_like'', JNum (py_round (feels_like (main (forecast (snd item)))) 1)),
        (''temp_min'', JNum (py_round (temp_min (main (forecast (snd item)))) 1)),
        (''temp_max'', JNum (py_round (temp_max (main (forecast (snd item)))) 1)),
        (''humidity'', JNum (humidity (main (forecast (snd item))))),
        (''pressure'', JNum (pressure (main (forecast (snd item))))),
        (''wind_speed'', JNum (py_round (speed (wind (forecast (snd item)))) 1)),
        (''wind_deg'', JNum (deg (wind (forecast (snd item))))),
        (''cloudiness'', JNum (clouds_all (forecast (snd item)))),
        (''visibility'', (case visibility (forecast (snd item)) of
                           None \<Rightarrow> JStr ''N/A'' | Some v \<Rightarrow> JNum v)),
        (''weather_description'', JStr (title (description wx))),
        (''weather_icon'', JStr (icon wx)),
        (''precipitation'', JNum (precipitation (forecast (snd item))))]"
proof (cases "weather (forecast (snd item))")
  case Nil
  with assms show ?thesis by (simp add: format_prediction_def Let_def)
next
  case (Cons wx rest)
  with assms show ?thesis by (simp add: format_prediction_def Let_def)
qed

lemma member_JObj: "member (JObj kvs) k = map_of kvs k"
  by (simp add: member_def)

lemma format_prediction_members:
  assumes "format_prediction idx item = Inr p"
  shows "member p ''temperature'' = Some (JNum (py_round (temp (main (forecast (snd item)))) 1))"
    and "member p ''feels_like'' = Some (JNum (py_round (feels_like (main (forecast (snd item)))) 1))"
    and "member p ''temp_min'' = Some (JNum (py_round (temp_min (main (forecast (snd item)))) 1))"
    and "member p ''temp_max'' = Some (JNum (py_round (temp_max (main (forecast (snd item)))) 1))"
    and "member p ''wind_speed'' = Some (JNum (py_round (speed (wind (forecast (snd item)))) 1))"
    and "member p ''humidity'' = Some (JNum (humidity (main (forecast (snd item)))))"
    and "member p ''pressure'' = Some (JNum (pressure (main (forecast (snd item)))))"
    and "member p ''wind_deg'' = Some (JNum (deg (wind (forecast (snd item)))))"
    and "member p ''cloudiness'' = Some (JNum (clouds_all (forecast (snd item))))"
    and "member p ''visibility'' =
           Some (case visibility (forecast (snd item)) of None \<Rightarrow> JStr ''N/A'' | Some v \<Rightarrow> JNum v)"
    and "member p ''precipitation'' = Some (JNum (precipitation (forecast (snd item))))"
    and "\<exists>wx rest. weather (forecast (snd item)) = wx # rest
           \<and> member p ''weather_description'' = Some (JStr (title (description wx)))"
  using format_prediction_Inr [OF assms] by (auto simp add: member_JObj)







lemma items_weather:
  "weather (forecast (snd noon_item)) \<noteq> []"
  "weather (forecast (snd snowy_item)) \<noteq> []"
  "weather (forecast (snd dry_item)) \<noteq> []"
  by code_simp+

lemma items_three_hour:
  "Some (JNum (three_hour (rain (forecast (snd noon_item)))
               + three_hour (snow (forecast (snd noon_item))))) = Some (JNum 2.5)"
  "Some (JNum (three_hour (rain (forecast (snd snowy_item)))
               + three_hour (snow (forecast (snd snowy_item))))) = Some (JNum 1.5)"
  "Some (JNum (three_hour (rain (forecast (snd dry_item)))
               + three_hour (snow (forecast (snd dry_item))))) = Some (JNum 0)"
  by code_simp+

lemma noon_item_summary:
  "format_prediction 0 noon_item = Inr (JObj
     [(''day_offset'', JNum 0),
      (''date'', JStr ''Monday, Jan 15''),
      (''full_datetime'', JStr ''Monday, Jan 15 12:00''),
      (''temperature'', JNum 20.6),
      (''feels_like'', JNum 19.2),
      (''temp_min'', JNum 18.3),
      (''temp_max'', JNum 22),
      (''humidity'', JNum 60),
      (''pressure'', JNum 1012),
      (''wind_speed'', JNum 3.5),
      (''wind_deg'', JNum 180),
      (''cloudiness'', JNum 40),
      (''visibility'', JNum 10000),
      (''weather_description'', JStr ''Light Rain''),
      (''weather_icon'', JStr ''10d''),
      (''precipitation'', JNum 2.5)])"
  by code_simp



lemma two_days_ok: "\<forall>f\<in>set two_days. in_range utc f \<and> weather f \<noteq> []"
  by code_simp

lemma two_days_sorted_length:
  "length (sorted_forecasts [((2024, 1, 15), entry_of utc (sample_at 1705320000)),
      ((2024, 1, 16), entry_of utc (sample_at 1705363200))]) = 2"
  by code_simp

lemma two_days_labels:
  "map_sum id (map (\<lambda>p. member p ''full_datetime'')) (aggregate utc two_days) =
     Inr [Some (JStr ''Monday, Jan 15 12:00''), Some (JStr ''Tuesday, Jan 16 00:00'')]"
  by code_simp

section \<open>The handlers\<close>

lemma py_get_Inr: "(\<exists>v. py_get data k dflt = Inr v) \<longleftrightarrow> (\<exists>kvs. data = JObj kvs)"
  by (cases data) (simp_all add: py_get_def)

lemma py_get_JObj: "py_get (JObj kvs) k dflt = Inr (dict_get kvs k dflt)"
  by (simp add: py_get_def)

lemma py_get_not_JObj: "(\<forall>kvs. data \<noteq> JObj kvs) \<Longrightarrow> py_get data k dflt = Inl AttributeError"
  by (cases data) (simp_all add: py_get_def)

lemma train_model_try_JObj:
  "train_model_try (Inr (JObj kvs)) =
     Inr (JObj
       [(''success'', JBool True),
        (''message'', JStr ''Training initiated''),
        (''model_type'', dict_get kvs ''model_type'' (JStr ''ensemble'')),
        (''event_type'', dict_get kvs ''event_type'' JNull),
        (''status'', JStr ''queued'')], 200)"
  by (simp add: train_model_try_def py_get_JObj)

lemma train_model_try_not_JObj:
  "(\<forall>kvs. g \<noteq> Inr (JObj kvs)) \<Longrightarrow> \<exists>e. train_model_try g = Inl e"
proof (cases g)
  case (Inl e)
  then show ?thesis by (simp add: train_model_try_def)
next
  case (Inr data)
  assume "\<forall>kvs. g \<noteq> Inr (JObj kvs)"
  with Inr have "\<forall>kvs. data \<noteq> JObj kvs" by simp
  then have "py_get data ''model_type'' (JStr ''ensemble'') = Inl AttributeError"
    by (rule py_get_not_JObj)
  with Inr show ?thesis by (simp add: train_model_try_def)
qed

lemma train_model_JObj:
  "train_model (Inr (JObj kvs)) =
     (JObj
       [(''success'', JBool True),
        (''message'', JStr ''Training initiated''),
        (''model_type'', dict_get kvs ''model_type'' (JStr ''ensemble'')),
        (''event_type'', dict_get kvs ''event_type'' JNull),
        (''status'', JStr ''queued'')], 200)"
  by (simp add: train_model_def train_model_try_JObj)

lemma train_model_not_JObj:
  assumes "\<forall>kvs. g \<noteq> Inr (JObj kvs)"
  shows "train_model g = (error_body ''Failed to initiate training'', 500)"
proof -
  from train_model_try_not_JObj [OF assms] obtain e where "train_model_try g = Inl e" by blast
  then show ?thesis by (simp add: train_model_def)
qed

lemma get_current_weather_raise:
  "get_current_weather_try env args = Inl e \<Longrightarrow>
   get_current_weather env args = (error_body ''Failed to fetch weather data'', 500)"
  by (simp add: get_current_weather_def)

lemma get_current_weather_try_status:
  assumes "get_current_weather_try env args = Inr r"
  shows "snd r = 500 \<or> (snd r = 200 \<and> member (fst r) ''success'' = Some (JBool True))"
  using assms unfolding get_current_weather_try_def
  by (auto simp add: member_def error_body_def
      split: sum.splits option.splits if_splits list.splits)

lemma get_current_weather_status:
  "snd (get_current_weather env args) = 500
   \<or> (snd (get_current_weather env args) = 200
       \<and> member (fst (get_current_weather env args)) ''success'' = Some (JBool True))"
proof (cases "get_current_weather_try env args")
  case (Inl e)
  then show ?thesis by (simp add: get_current_weather_def)
next
  case (Inr r)
  from get_current_weather_try_status [OF this] Inr show ?thesis
    by (simp add: get_current_weather_def)
qed

lemma float_arg_missing: "map_of args k = None \<Longrightarrow> float_arg env args k = Inl TypeError"
  by (simp add: float_arg_def)

lemma float_arg_malformed:
  "map_of args k = Some s \<Longrightarrow> float_of_str env s = Inl m \<Longrightarrow>
   float_arg env args k = Inl (ValueError m)"
  by (simp add: float_arg_def)

lemma get_current_weather_try_bad_latitude:
  "float_arg env args ''latitude'' = Inl e \<Longrightarrow> get_current_weather_try env args = Inl e"
  by (simp add: get_current_weather_try_def)

lemma get_current_weather_try_bad_longitude:
  "float_arg env args ''longitude'' = Inl e \<Longrightarrow> \<exists>e'. get_current_weather_try env args = Inl e'"
  by (cases "float_arg env args ''latitude''") (simp_all add: get_current_weather_try_def)

lemma get_current_weather_bad_coordinate:
  assumes "float_arg env args ''latitude'' = Inl e \<or> float_arg env args ''longitude'' = Inl e"
  shows "get_current_weather env args = (error_body ''Failed to fetch weather data'', 500)"
proof -
  from assms have "\<exists>e'. get_current_weather_try env args = Inl e'"
    using get_current_weather_try_bad_latitude get_current_weather_try_bad_longitude by blast
  then show ?thesis using get_current_weather_raise by blast
qed

lemma test_args_missing: "map_of [(''latitude'', ''51.5'')] ''latitude'' = None
   \<or> map_of [(''latitude'', ''51.5'')] ''longitude'' = None"
  by code_simp

lemma test_args_malformed:
  "(map_of [(''latitude'', ''north''), (''longitude'', ''20'')] ''latitude'' = Some ''north''
      \<or> map_of [(''latitude'', ''north''), (''longitude'', ''20'')] ''longitude'' = Some ''north'')
   \<and> float_of_str test_env ''north'' = Inl ''could not convert string to float: north''"
  by code_simp

















lemma validate_JNull:
  "validate env JNull = Inr (Inl (error_body ''Missing required fields: latitude, longitude'', 400))"
  by (simp add: validate_def)



lemma predict_try_accepted:
  assumes "validate env (JObj kvs) = Inr (Inr (la, lo))"
  shows "predict_try env (Inr (JObj kvs)) =
     (case fetch_forecast env la lo of
        Inl e \<Rightarrow> Inl e
      | Inr (Inl early) \<Rightarrow> Inr early
      | Inr (Inr forecast_data) \<Rightarrow>
          forecast_response env la lo
            (dict_get kvs ''location_name''
               (JStr (''Lat: '' @ str_of_float env la @ '', Lon: '' @ str_of_float env lo)))
            forecast_data)"
  by (simp add: predict_try_def assms py_get_def split: sum.splits)

lemma validate_accepts_dict:
  assumes "validate env data = Inr (Inr c)"
  shows "\<exists>kvs. data = JObj kvs"
proof (cases data)
  case (JObj kvs)
  then show ?thesis by simp
next
  case JNull
  with assms show ?thesis by (simp add: validate_def)
next
  case (JBool b)
  with assms show ?thesis by (cases b) (simp_all add: validate_def py_in_def)
next
  case (JNum x)
  with assms show ?thesis by (cases "x = 0") (simp_all add: validate_def py_in_def)
next
  case (JStr s)
  with assms show ?thesis
    by (cases "s = []"; cases "substring ''latitude'' s"; cases "substring ''longitude'' s")
      (simp_all add: validate_def py_in_def getitem_def)
next
  case (JArr xs)
  with assms show ?thesis
    by (cases "xs = []"; cases "JStr ''latitude'' \<in> set xs"; cases "JStr ''longitude'' \<in> set xs")
      (simp_all add: validate_def py_in_def getitem_def)
qed

lemma aggregate_Nil: "aggregate tz [] = Inr []"
  by (simp add: aggregate_def daily_forecasts_def sorted_forecasts_def)

lemma forecast_response_empty:
  assumes "forecast_list fd = None \<or> forecast_list fd = Some []"
    and "sun_time (utcoffset env) (sunrise (field_get (city fd) empty_city)) = Inr r"
    and "sun_time (utcoffset env) (sunset (field_get (city fd) empty_city)) = Inr s"
  shows "\<exists>loc. forecast_response env la lo loc_name fd =
     Inr (JObj [(''success'', JBool True), (''location'', loc), (''predictions'', JArr []),
                (''generated_at'', JStr (isoformat (utcnow env)))], 200)"
proof -
  from assms(1) have "field_get (forecast_list fd) [] = []" by (auto simp add: field_get_def)
  then show ?thesis
    by (simp add: forecast_response_def Let_def aggregate_Nil assms(2,3))
qed

lemma london_premises:
  "validate test_env (JObj london) = Inr (Inr (51.5, - 0.12))
   \<and> fetch_forecast test_env 51.5 (- 0.12) = Inr (Inr
        \<lparr>message = None, city = None, forecast_list = Some [],
         place_name = None, main_now = None, wind_now = None, weather_now = None\<rparr>)
   \<and> (forecast_list \<lparr>message = None, city = None, forecast_list = Some [],
         place_name = None, main_now = None, wind_now = None, weather_now = None\<rparr> = None
      \<or> forecast_list \<lparr>message = None, city = None, forecast_list = Some [],
         place_name = None, main_now = None, wind_now = None, weather_now = None\<rparr> = Some [])
   \<and> sun_time (utcoffset test_env) (sunrise (field_get (city \<lparr>message = None, city = None,
         forecast_list = Some [], place_name = None, main_now = None, wind_now = None,
         weather_now = None\<rparr>) empty_city)) = Inr ''N/A''
   \<and> sun_time (utcoffset test_env) (sunset (field_get (city \<lparr>message = None, city = None,
         forecast_list = Some [], place_name = None, main_now = None, wind_now = None,
         weather_now = None\<rparr>) empty_city)) = Inr ''N/A''"
  by code_simp






section \<open>C1: one sample per calendar date, noon preferred\<close>



section \<open>C2: sorted by timestamp, first five, numbered from 0\<close>

text \<open>
  C2. The aggregator returns a result whenever every timestamp is in range and every
  sample has a weather entry. Whatever it returns is built as follows: the retained
  entries are sorted ascending by their timestamp (a rearrangement of the same
  entries), the first 5 are kept, and the i-th prediction is the summary of the i-th
  kept entry and carries day offset i. The kept entries are in strictly increasing
  date order and every entry that is dropped has a later date than every entry that is
  kept, so the number of predictions is the number of distinct dates capped at 5; with
  7 distinct dates the day offsets are 0, 1, 2, 3, 4.
\<close>

theorem first_five_days_in_order:
  "((\<forall>f\<in>set forecasts. in_range tz f \<and> weather f \<noteq> []) \<longrightarrow>
      (\<exists>predictions. aggregate tz forecasts = Inr predictions))
   \<and> (\<forall>predictions. aggregate tz forecasts = Inr predictions \<longrightarrow>
        (\<exists>daily. daily_forecasts tz forecasts = Inr daily
           \<and> sorted_forecasts daily = take 5 (sort_key sort_stamp daily)
           \<and> sorted (map sort_stamp (sort_key sort_stamp daily))
           \<and> set (sort_key sort_stamp daily) = set daily
           \<and> length (sort_key sort_stamp daily) = length daily
           \<and> sorted_wrt (<) (map fst (sorted_forecasts daily))
           \<and> (\<forall>y\<in>set (sorted_forecasts daily).
                 \<forall>x\<in>set daily - set (sorted_forecasts daily). fst y < fst x)
           \<and> length predictions = min 5 (card (date_of tz ` set forecasts))
           \<and> (\<forall>i<length predictions.
                 format_prediction i (sorted_forecasts daily ! i) = Inr (predictions ! i)
                 \<and> member (predictions ! i) ''day_offset'' = Some (JNum (of_nat i)))
           \<and> (card (date_of tz ` set forecasts) = 7 \<longrightarrow>
                 map (\<lambda>p. member p ''day_offset'') predictions =
                   [Some (JNum 0), Some (JNum 1), Some (JNum 2), Some (JNum 3), Some (JNum 4)])))"
proof (intro conjI allI impI)
  assume "\<forall>f\<in>set forecasts. in_range tz f \<and> weather f \<noteq> []"
  then show "\<exists>predictions. aggregate tz forecasts = Inr predictions"
    by (rule aggregate_returns)
next
  fix predictions
  assume a: "aggregate tz forecasts = Inr predictions"
  from aggregate_format [OF a] obtain daily where d: "daily_forecasts tz forecasts = Inr daily"
    and len: "length predictions = length (sorted_forecasts daily)"
    and fmt: "\<And>i. i < length predictions \<Longrightarrow>
                format_prediction i (sorted_forecasts daily ! i) = Inr (predictions ! i)"
    by blast
  have early: "\<forall>y\<in>set (sorted_forecasts daily).
      \<forall>x\<in>set daily - set (sorted_forecasts daily). fst y < fst x"
    using sorted_forecasts_earliest [OF d] by blast
  have n: "length predictions = min 5 (card (date_of tz ` set forecasts))"
    by (simp add: len length_sorted_forecasts daily_forecasts_length [OF d])
  have off: "member (predictions ! i) ''day_offset'' = Some (JNum (of_nat i))"
    if "i < length predictions" for i
    using fmt [OF that] by (rule format_prediction_day_offset)
  have seven: "map (\<lambda>p. member p ''day_offset'') predictions =
      [Some (JNum 0), Some (JNum 1), Some (JNum 2), Some (JNum 3), Some (JNum 4)]"
    if "card (date_of tz ` set forecasts) = 7"
  proof -
    from n that have l5: "length predictions = 5" by simp
    have "map (\<lambda>p. member p ''day_offset'') predictions ! i =
        [Some (JNum 0), Some (JNum 1), Some (JNum 2), Some (JNum 3), Some (JNum 4)] ! i"
      if "i < 5" for i
    proof -
      from that l5 have "i < length predictions" by simp
      from off [OF this] this have "map (\<lambda>p. member p ''day_offset'') predictions ! i
        = Some (JNum (of_nat i))" by simp
      moreover from that have "i = 0 \<or> i = 1 \<or> i = 2 \<or> i = 3 \<or> i = 4" by arith
      ultimately show ?thesis by auto
    qed
    then show ?thesis by (intro nth_equalityI) (simp_all add: l5)
  qed
  have "daily_forecasts tz forecasts = Inr daily
           \<and> sorted_forecasts daily = take 5 (sort_key sort_stamp daily)
           \<and> sorted (map sort_stamp (sort_key sort_stamp daily))
           \<and> set (sort_key sort_stamp daily) = set daily
           \<and> length (sort_key sort_stamp daily) = length daily
           \<and> sorted_wrt (<) (map fst (sorted_forecasts daily))
           \<and> (\<forall>y\<in>set (sorted_forecasts daily).
                 \<forall>x\<in>set daily - set (sorted_forecasts daily). fst y < fst x)
           \<and> length predictions = min 5 (card (date_of tz ` set forecasts))
           \<and> (\<forall>i<length predictions.
                 format_prediction i (sorted_forecasts daily ! i) = Inr (predictions ! i)
                 \<and> member (predictions ! i) ''day_offset'' = Some (JNum (of_nat i)))
           \<and> (card (date_of tz ` set forecasts) = 7 \<longrightarrow>
                 map (\<lambda>p. member p ''day_offset'') predictions =
                   [Some (JNum 0), Some (JNum 1), Some (JNum 2), Some (JNum 3), Some (JNum 4)])"
  proof (intro conjI allI impI)
    show "daily_forecasts tz forecasts = Inr daily" by (rule d)
    show "sorted_forecasts daily = take 5 (sort_key sort_stamp daily)"
      by (rule sorted_forecasts_alt)
    show "sorted (map sort_stamp (sort_key sort_stamp daily))" by simp
    show "set (sort_key sort_stamp daily) = set daily" by simp
    show "length (sort_key sort_stamp daily) = length daily" by simp
    show "sorted_wrt (<) (map fst (sorted_forecasts daily))"
      by (rule sorted_forecasts_strict [OF d])
    show "\<forall>y\<in>set (sorted_forecasts daily).
      \<forall>x\<in>set daily - set (sorted_forecasts daily). fst y < fst x" by (rule early)
    show "length predictions = min 5 (card (date_of tz ` set forecasts))" by (rule n)
    show "format_prediction i (sorted_forecasts daily ! i) = Inr (predictions ! i)"
      if "i < length predictions" for i using that by (rule fmt)
    show "member (predictions ! i) ''day_offset'' = Some (JNum (of_nat i))"
      if "i < length predictions" for i using that by (rule off)
    show "map (\<lambda>p. member p ''day_offset'') predictions =
      [Some (JNum 0), Some (JNum 1), Some (JNum 2), Some (JNum 3), Some (JNum 4)]"
      if "card (date_of tz ` set forecasts) = 7" using that by (rule seven)
  qed
  then show "\<exists>daily. daily_forecasts tz forecasts = Inr daily
           \<and> sorted_forecasts daily = take 5 (sort_key sort_stamp daily)
           \<and> sorted (map sort_stamp (sort_key sort_stamp daily))
           \<and> set (sort_key sort_stamp daily) = set daily
           \<and> length (sort_key sort_stamp daily) = length daily
           \<and> sorted_wrt (<) (map fst (sorted_forecasts daily))
           \<and> (\<forall>y\<in>set (sorted_forecasts daily).
                 \<forall>x\<in>set daily - set (sorted_forecasts daily). fst y < fst x)
           \<and> length predictions = min 5 (card (date_of tz ` set forecasts))
           \<and> (\<forall>i<length predictions.
                 format_prediction i (sorted_forecasts daily ! i) = Inr (predictions ! i)
                 \<and> member (predictions ! i) ''day_offset'' = Some (JNum (of_nat i)))
           \<and> (card (date_of tz ` set forecasts) = 7 \<longrightarrow>
                 map (\<lambda>p. member p ''day_offset'') predictions =
                   [Some (JNum 0), Some (JNum 1), Some (JNum 2), Some (JNum 3), Some (JNum 4)])"
    by (rule exI [where x = daily])
qed

theorem first_five_days_in_order_witness:
  "\<exists>predictions. aggregate utc seven_days = Inr predictions
     \<and> length predictions = 5
     \<and> map (\<lambda>p. member p ''day_offset'') predictions =
          [Some (JNum 0), Some (JNum 1), Some (JNum 2), Some (JNum 3), Some (JNum 4)]
     \<and> map (\<lambda>p. member p ''date'') predictions =
          [Some (JStr ''Monday, Jan 15''), Some (JStr ''Tuesday, Jan 16''),
           Some (JStr ''Wednesday, Jan 17''), Some (JStr ''Thursday, Jan 18''),
           Some (JStr ''Friday, Jan 19'')]"
proof -
  note t = first_five_days_in_order [of seven_days utc]
  from t [THEN conjunct1, THEN mp, OF seven_days_ok]
  obtain predictions where a: "aggregate utc seven_days = Inr predictions" by blast
  from t [THEN conjunct2, THEN spec, THEN mp, OF a] obtain daily where
    n: "length predictions = min 5 (card (date_of utc ` set seven_days))"
    and o: "card (date_of utc ` set seven_days) = 7 \<longrightarrow>
         map (\<lambda>p. member p ''day_offset'') predictions =
           [Some (JNum 0), Some (JNum 1), Some (JNum 2), Some (JNum 3), Some (JNum 4)]"
    by blast
  have l: "length predictions = 5" by (simp add: n seven_days_card)
  have f: "map (\<lambda>p. member p ''day_offset'') predictions =
           [Some (JNum 0), Some (JNum 1), Some (JNum 2), Some (JNum 3), Some (JNum 4)]"
    using o seven_days_card by (rule mp)
  have "map_sum id (map (\<lambda>p. member p ''date'')) (Inr predictions :: exn + json list) =
     Inr [Some (JStr ''Monday, Jan 15''), Some (JStr ''Tuesday, Jan 16''),
          Some (JStr ''Wednesday, Jan 17''), Some (JStr ''Thursday, Jan 18''),
          Some (JStr ''Friday, Jan 19'')]"
    by (rule seven_days_labels [unfolded a])
  then have g: "map (\<lambda>p. member p ''date'') predictions =
          [Some (JStr ''Monday, Jan 15''), Some (JStr ''Tuesday, Jan 16''),
           Some (JStr ''Wednesday, Jan 17''), Some (JStr ''Thursday, Jan 18''),
           Some (JStr ''Friday, Jan 19'')]"
    by (simp only: map_sum.simps sum.inject)
  from a l f g have "aggregate utc seven_days = Inr predictions
     \<and> length predictions = 5
     \<and> map (\<lambda>p. member p ''day_offset'') predictions =
          [Some (JNum 0), Some (JNum 1), Some (JNum 2), Some (JNum 3), Some (JNum 4)]
     \<and> map (\<lambda>p. member p ''date'') predictions =
          [Some (JStr ''Monday, Jan 15''), Some (JStr ''Tuesday, Jan 16''),
           Some (JStr ''Wednesday, Jan 17''), Some (JStr ''Thursday, Jan 18''),
           Some (JStr ''Friday, Jan 19'')]"
    by (intro conjI)
  then show ?thesis by (rule exI [where x = predictions])
qed

section \<open>C5: precipitation is rain plus snow\<close>

text \<open>
  C5. The loop body returns a summary for every item whose sample has a weather entry,
  and the precipitation of a summary is the 3-hour rain accumulation plus the 3-hour
  snow accumulation of its sample, each counted as 0 when the block or its 3h entry is
  missing. A sample with rain 3h = 2.5 and no snow gives 2.5, one with rain 3h = 1.0 and
  snow 3h = 0.5 gives 1.5, one with neither gives 0.
\<close>

theorem precipitation_rain_plus_snow:
  "(weather (forecast (snd item)) \<noteq> [] \<longrightarrow> (\<exists>p. format_prediction idx item = Inr p))
   \<and> (\<forall>p. format_prediction idx item = Inr p \<longrightarrow>
         member p ''precipitation'' =
           Some (JNum (three_hour (rain (forecast (snd item)))
                       + three_hour (snow (forecast (snd item))))))
   \<and> (\<forall>f. rain f = Some [(''3h'', 2.5)] \<and> snow f = None \<longrightarrow> precipitation f = 2.5)
   \<and> (\<forall>f. rain f = Some [(''3h'', 1.0)] \<and> snow f = Some [(''3h'', 0.5)] \<longrightarrow>
          precipitation f = 1.5)
   \<and> (\<forall>f. rain f = None \<and> snow f = None \<longrightarrow> precipitation f = 0)"
proof (intro conjI allI impI)
  assume "weather (forecast (snd item)) \<noteq> []"
  then show "\<exists>p. format_prediction idx item = Inr p" by (rule format_prediction_returns)
next
  fix p assume "format_prediction idx item = Inr p"
  then have "member p ''precipitation'' = Some (JNum (precipitation (forecast (snd item))))"
    by (rule format_prediction_members)
  then show "member p ''precipitation'' =
           Some (JNum (three_hour (rain (forecast (snd item)))
                       + three_hour (snow (forecast (snd item)))))"
    by (simp only: precipitation_three_hour)
next
  fix f :: sample assume "rain f = Some [(''3h'', 2.5)] \<and> snow f = None"
  then show "precipitation f = 2.5"
    by (simp add: precipitation_three_hour three_hour_def)
next
  fix f :: sample assume "rain f = Some [(''3h'', 1.0)] \<and> snow f = Some [(''3h'', 0.5)]"
  then show "precipitation f = 1.5"
    by (simp add: precipitation_three_hour three_hour_def)
next
  fix f :: sample assume "rain f = None \<and> snow f = None"
  then show "precipitation f = 0"
    by (simp add: precipitation_three_hour three_hour_def)
qed

theorem precipitation_rain_plus_snow_witness:
  "(\<exists>p. format_prediction 0 noon_item = Inr p \<and> member p ''precipitation'' = Some (JNum 2.5))
   \<and> (\<exists>p. format_prediction 0 snowy_item = Inr p \<and> member p ''precipitation'' = Some (JNum 1.5))
   \<and> (\<exists>p. format_prediction 0 dry_item = Inr p \<and> member p ''precipitation'' = Some (JNum 0))"
proof (intro conjI)
  note t = precipitation_rain_plus_snow [of noon_item 0]
  from t [THEN conjunct1, THEN mp, OF items_weather(1)]
  obtain p where p: "format_prediction 0 noon_item = Inr p" by blast
  from t [THEN conjunct2, THEN conjunct1, THEN spec, THEN mp, OF p]
  have "member p ''precipitation'' = Some (JNum 2.5)" by (rule trans) (rule items_three_hour(1))
  with p have "format_prediction 0 noon_item = Inr p \<and> member p ''precipitation'' = Some (JNum 2.5)"
    by (intro conjI)
  then show "\<exists>p. format_prediction 0 noon_item = Inr p \<and> member p ''precipitation'' = Some (JNum 2.5)"
    by (rule exI [where x = p])
next
  note t = precipitation_rain_plus_snow [of snowy_item 0]
  from t [THEN conjunct1, THEN mp, OF items_weather(2)]
  obtain p where p: "format_prediction 0 snowy_item = Inr p" by blast
  from t [THEN conjunct2, THEN conjunct1, THEN spec, THEN mp, OF p]
  have "member p ''precipitation'' = Some (JNum 1.5)" by (rule trans) (rule items_three_hour(2))
  with p have "format_prediction 0 snowy_item = Inr p \<and> member p ''precipitation'' = Some (JNum 1.5)"
    by (intro conjI)
  then show "\<exists>p. format_prediction 0 snowy_item = Inr p \<and> member p ''precipitation'' = Some (JNum 1.5)"
    by (rule exI [where x = p])
next
  note t = precipitation_rain_plus_snow [of dry_item 0]
  from t [THEN conjunct1, THEN mp, OF items_weather(3)]
  obtain p where p: "format_prediction 0 dry_item = Inr p" by blast
  from t [THEN conjunct2, THEN conjunct1, THEN spec, THEN mp, OF p]
  have "member p ''precipitation'' = Some (JNum 0)" by (rule trans) (rule items_three_hour(3))
  with p have "format_prediction 0 dry_item = Inr p \<and> member p ''precipitation'' = Some (JNum 0)"
    by (intro conjI)
  then show "\<exists>p. format_prediction 0 dry_item = Inr p \<and> member p ''precipitation'' = Some (JNum 0)"
    by (rule exI [where x = p])
qed

section \<open>C6: the other fields of a summary\<close>



section \<open>C8: summaries come from input samples of pairwise distinct dates\<close>

text \<open>
  C8. The aggregator returns a result whenever every timestamp is in range and every
  sample has a weather entry. In whatever it returns, the i-th summary is built from
  the i-th kept entry; the dates the kept entries are keyed under are pairwise
  distinct; and every kept entry holds a sample of the input list together with that
  sample's local time, the sample's local calendar date being the key of the entry.
\<close>

theorem summaries_of_distinct_dates:
  "((\<forall>f\<in>set forecasts. in_range tz f \<and> weather f \<noteq> []) \<longrightarrow>
      (\<exists>predictions. aggregate tz forecasts = Inr predictions))
   \<and> (\<forall>predictions. aggregate tz forecasts = Inr predictions \<longrightarrow>
        (\<exists>daily. daily_forecasts tz forecasts = Inr daily
           \<and> length predictions = length (sorted_forecasts daily)
           \<and> distinct (map fst (sorted_forecasts daily))
           \<and> (\<forall>i<length predictions.
                 format_prediction i (sorted_forecasts daily ! i) = Inr (predictions ! i)
                 \<and> forecast (snd (sorted_forecasts daily ! i)) \<in> set forecasts
                 \<and> snd (sorted_forecasts daily ! i)
                     = entry_of tz (forecast (snd (sorted_forecasts daily ! i)))
                 \<and> date_of tz (forecast (snd (sorted_forecasts daily ! i)))
                     = fst (sorted_forecasts daily ! i))))"
proof (intro conjI allI impI)
  assume "\<forall>f\<in>set forecasts. in_range tz f \<and> weather f \<noteq> []"
  then show "\<exists>predictions. aggregate tz forecasts = Inr predictions"
    by (rule aggregate_returns)
next
  fix predictions
  assume a: "aggregate tz forecasts = Inr predictions"
  from aggregate_format [OF a] obtain daily where d: "daily_forecasts tz forecasts = Inr daily"
    and len: "length predictions = length (sorted_forecasts daily)"
    and fmt: "\<And>i. i < length predictions \<Longrightarrow>
                format_prediction i (sorted_forecasts daily ! i) = Inr (predictions ! i)"
    by blast
  have dist: "distinct (map fst (sorted_forecasts daily))"
    using sorted_forecasts_strict [OF d] by (simp add: strict_sorted_iff)
  have src: "forecast (snd (sorted_forecasts daily ! i)) \<in> set forecasts
        \<and> snd (sorted_forecasts daily ! i) = entry_of tz (forecast (snd (sorted_forecasts daily ! i)))
        \<and> date_of tz (forecast (snd (sorted_forecasts daily ! i))) = fst (sorted_forecasts daily ! i)"
    if "i < length predictions" for i
  proof -
    from that len have "sorted_forecasts daily ! i \<in> set (sorted_forecasts daily)" by simp
    with set_sorted_forecasts
    have "(fst (sorted_forecasts daily ! i), snd (sorted_forecasts daily ! i)) \<in> set daily"
      by auto
    from daily_forecasts_entry [OF d this] obtain r where
      "snd (sorted_forecasts daily ! i) = entry_of tz r" and "r \<in> set forecasts"
      and "date_of tz r = fst (sorted_forecasts daily ! i)" by blast
    then show ?thesis by (simp add: entry_of_simps)
  qed
  have "daily_forecasts tz forecasts = Inr daily
           \<and> length predictions = length (sorted_forecasts daily)
           \<and> distinct (map fst (sorted_forecasts daily))
           \<and> (\<forall>i<length predictions.
                 format_prediction i (sorted_forecasts daily ! i) = Inr (predictions ! i)
                 \<and> forecast (snd (sorted_forecasts daily ! i)) \<in> set forecasts
                 \<and> snd (sorted_forecasts daily ! i)
                     = entry_of tz (forecast (snd (sorted_forecasts daily ! i)))
                 \<and> date_of tz (forecast (snd (sorted_forecasts daily ! i)))
                     = fst (sorted_forecasts daily ! i))"
    using d len dist fmt src by blast
  then show "\<exists>daily. daily_forecasts tz forecasts = Inr daily
           \<and> length predictions = length (sorted_forecasts daily)
           \<and> distinct (map fst (sorted_forecasts daily))
           \<and> (\<forall>i<length predictions.
                 format_prediction i (sorted_forecasts daily ! i) = Inr (predictions ! i)
                 \<and> forecast (snd (sorted_forecasts daily ! i)) \<in> set forecasts
                 \<and> snd (sorted_forecasts daily ! i)
                     = entry_of tz (forecast (snd (sorted_forecasts daily ! i)))
                 \<and> date_of tz (forecast (snd (sorted_forecasts daily ! i)))
                     = fst (sorted_forecasts daily ! i))"
    by (rule exI [where x = daily])
qed

theorem summaries_of_distinct_dates_witness:
  "\<exists>predictions. aggregate utc two_days = Inr predictions
     \<and> length predictions = 2
     \<and> map (\<lambda>p. member p ''full_datetime'') predictions =
          [Some (JStr ''Monday, Jan 15 12:00''), Some (JStr ''Tuesday, Jan 16 00:00'')]"
proof -
  note t = summaries_of_distinct_dates [of two_days utc]
  from t [THEN conjunct1, THEN mp, OF two_days_ok]
  obtain predictions where a: "aggregate utc two_days = Inr predictions" by blast
  from t [THEN conjunct2, THEN spec, THEN mp, OF a] obtain daily where
    d: "daily_forecasts utc two_days = Inr daily"
    and n: "length predictions = length (sorted_forecasts daily)"
    by blast
  from trans [OF d [symmetric] two_days_daily]
  have dl: "daily = [((2024, 1, 15), entry_of utc (sample_at 1705320000)),
      ((2024, 1, 16), entry_of utc (sample_at 1705363200))]"
    by (rule sum.inject(2) [THEN iffD1])
  have l: "length predictions = 2" by (simp only: n dl two_days_sorted_length)
  have "map_sum id (map (\<lambda>p. member p ''full_datetime'')) (Inr predictions :: exn + json list) =
     Inr [Some (JStr ''Monday, Jan 15 12:00''), Some (JStr ''Tuesday, Jan 16 00:00'')]"
    by (rule two_days_labels [unfolded a])
  then have g: "map (\<lambda>p. member p ''full_datetime'') predictions =
          [Some (JStr ''Monday, Jan 15 12:00''), Some (JStr ''Tuesday, Jan 16 00:00'')]"
    by (simp only: map_sum.simps sum.inject)
  from a l g have "aggregate utc two_days = Inr predictions
     \<and> length predictions = 2
     \<and> map (\<lambda>p. member p ''full_datetime'') predictions =
          [Some (JStr ''Monday, Jan 15 12:00''), Some (JStr ''Tuesday, Jan 16 00:00'')]"
    by (intro conjI)
  then show ?thesis by (rule exI [where x = predictions])
qed

section \<open>C3: the validator of predict\<close>



section \<open>C4: an empty sample list\<close>

text \<open>
  C4. On the empty list the aggregator returns the empty list and no error. When the
  request is accepted, the upstream answers 200 with a payload whose list is empty or
  missing, and the sunrise and sunset of the payload can be printed, the response of
  predict has status 200, success true and an empty predictions array.
\<close>

theorem empty_list_is_success:
  "aggregate tz [] = Inr []
   \<and> (\<forall>la lo fd r s. validate env data = Inr (Inr (la, lo))
          \<and> fetch_forecast env la lo = Inr (Inr fd)
          \<and> (forecast_list fd = None \<or> forecast_list fd = Some [])
          \<and> sun_time (utcoffset env) (sunrise (field_get (city fd) empty_city)) = Inr r
          \<and> sun_time (utcoffset env) (sunset (field_get (city fd) empty_city)) = Inr s
        \<longrightarrow> snd (predict env (Inr data)) = 200
            \<and> member (fst (predict env (Inr data))) ''success'' = Some (JBool True)
            \<and> member (fst (predict env (Inr data))) ''predictions'' = Some (JArr []))"
proof (intro conjI allI impI)
  show "aggregate tz [] = Inr []" by (rule aggregate_Nil)
next
  fix la lo fd r s
  assume a: "validate env data = Inr (Inr (la, lo))
          \<and> fetch_forecast env la lo = Inr (Inr fd)
          \<and> (forecast_list fd = None \<or> forecast_list fd = Some [])
          \<and> sun_time (utcoffset env) (sunrise (field_get (city fd) empty_city)) = Inr r
          \<and> sun_time (utcoffset env) (sunset (field_get (city fd) empty_city)) = Inr s"
  then have v: "validate env data = Inr (Inr (la, lo))"
    and f: "fetch_forecast env la lo = Inr (Inr fd)"
    and e: "forecast_list fd = None \<or> forecast_list fd = Some []"
    and sr: "sun_time (utcoffset env) (sunrise (field_get (city fd) empty_city)) = Inr r"
    and ss: "sun_time (utcoffset env) (sunset (field_get (city fd) empty_city)) = Inr s"
    by blast+
  from validate_accepts_dict [OF v] obtain kvs where d: "data = JObj kvs" by blast
  define loc_name where "loc_name = dict_get kvs ''location_name''
     (JStr (''Lat: '' @ str_of_float env la @ '', Lon: '' @ str_of_float env lo))"
  have "predict_try env (Inr (JObj kvs)) = forecast_response env la lo loc_name fd"
    using predict_try_accepted [OF v [unfolded d]] by (simp add: f loc_name_def)
  moreover from forecast_response_empty [OF e sr ss] obtain loc where
    "forecast_response env la lo loc_name fd =
     Inr (JObj [(''success'', JBool True), (''location'', loc), (''predictions'', JArr []),
                (''generated_at'', JStr (isoformat (utcnow env)))], 200)" by blast
  ultimately have p: "predict env (Inr data) =
     (JObj [(''success'', JBool True), (''location'', loc), (''predictions'', JArr []),
                (''generated_at'', JStr (isoformat (utcnow env)))], 200)"
    by (simp add: predict_def d)
  show "snd (predict env (Inr data)) = 200" by (simp add: p)
  show "member (fst (predict env (Inr data))) ''success'' = Some (JBool True)"
    by (simp add: p member_def)
  show "member (fst (predict env (Inr data))) ''predictions'' = Some (JArr [])"
    by (simp add: p member_def)
qed

theorem empty_list_is_success_witness:
  "snd (predict test_env (Inr (JObj london))) = 200
   \<and> member (fst (predict test_env (Inr (JObj london)))) ''success'' = Some (JBool True)
   \<and> member (fst (predict test_env (Inr (JObj london)))) ''predictions'' = Some (JArr [])"
  using empty_list_is_success [of utc test_env "JObj london", THEN conjunct2,
      THEN spec, THEN spec, THEN spec, THEN spec, THEN spec] london_premises
  by (rule mp)

section \<open>C7: get_current_weather answers 200 or 500\<close>

text \<open>
  C7. Every exception raised while get_current_weather handles a request ends in the 500
  response "Failed to fetch weather data"; the status of the handler is 500, or it is 200
  and the body reports success; a missing latitude or longitude parameter, or one that is
  not the text of a float, gives that 500 response. No response has status 400.
\<close>

theorem current_weather_failures_are_500:
  "(\<forall>e. get_current_weather_try env args = Inl e \<longrightarrow>
      get_current_weather env args = (error_body ''Failed to fetch weather data'', 500))
   \<and> (snd (get_current_weather env args) = 500
       \<or> (snd (get_current_weather env args) = 200
           \<and> member (fst (get_current_weather env args)) ''success'' = Some (JBool True)))
   \<and> (map_of args ''latitude'' = None \<or> map_of args ''longitude'' = None \<longrightarrow>
         get_current_weather env args = (error_body ''Failed to fetch weather data'', 500))
   \<and> (\<forall>s m. (map_of args ''latitude'' = Some s \<or> map_of args ''longitude'' = Some s)
                \<and> float_of_str env s = Inl m \<longrightarrow>
         get_current_weather env args = (error_body ''Failed to fetch weather data'', 500))"
proof (intro conjI allI impI)
  fix e assume "get_current_weather_try env args = Inl e"
  then show "get_current_weather env args = (error_body ''Failed to fetch weather data'', 500)"
    by (rule get_current_weather_raise)
next
  show "snd (get_current_weather env args) = 500
       \<or> (snd (get_current_weather env args) = 200
           \<and> member (fst (get_current_weather env args)) ''success'' = Some (JBool True))"
    by (rule get_current_weather_status)
next
  assume "map_of args ''latitude'' = None \<or> map_of args ''longitude'' = None"
  then have "float_arg env args ''latitude'' = Inl TypeError
      \<or> float_arg env args ''longitude'' = Inl TypeError"
    using float_arg_missing by blast
  then show "get_current_weather env args = (error_body ''Failed to fetch weather data'', 500)"
    by (rule get_current_weather_bad_coordinate)
next
  fix s m
  assume "(map_of args ''latitude'' = Some s \<or> map_of args ''longitude'' = Some s)
            \<and> float_of_str env s = Inl m"
  then have "float_arg env args ''latitude'' = Inl (ValueError m)
      \<or> float_arg env args ''longitude'' = Inl (ValueError m)"
    using float_arg_malformed by blast
  then show "get_current_weather env args = (error_body ''Failed to fetch weather data'', 500)"
    by (rule get_current_weather_bad_coordinate)
qed

theorem current_weather_failures_are_500_witness:
  "get_current_weather test_env [(''latitude'', ''51.5'')]
     = (error_body ''Failed to fetch weather data'', 500)
   \<and> get_current_weather test_env [(''latitude'', ''north''), (''longitude'', ''20'')]
     = (error_body ''Failed to fetch weather data'', 500)"
proof (intro conjI)
  show "get_current_weather test_env [(''latitude'', ''51.5'')]
     = (error_body ''Failed to fetch weather data'', 500)"
    using current_weather_failures_are_500 [of test_env "[(''latitude'', ''51.5'')]",
        THEN conjunct2, THEN conjunct2, THEN conjunct1] test_args_missing
    by (rule mp)
  show "get_current_weather test_env [(''latitude'', ''north''), (''longitude'', ''20'')]
     = (error_body ''Failed to fetch weather data'', 500)"
    using current_weather_failures_are_500
        [of test_env "[(''latitude'', ''north''), (''longitude'', ''20'')]",
         THEN conjunct2, THEN conjunct2, THEN conjunct2, THEN spec, THEN spec]
      test_args_malformed
    by (rule mp)
qed

section \<open>C9: the history filter needs two nonzero coordinates\<close>



section \<open>C10: train_model needs a JSON object\<close>

text \<open>
  C10. train_model answers 500 with "Failed to initiate training" when the parsed body is
  null and when get_json raises; its status is 200 exactly when the body is a JSON
  object, it is that 500 response exactly when the body is not one, and for an object the
  response is the queued acknowledgement with the model type (default "ensemble") and
  the event type (default null) of the body.
\<close>

theorem train_model_null_body:
  "train_model (Inr JNull) = (error_body ''Failed to initiate training'', 500)
   \<and> (\<forall>e. train_model (Inl e) = (error_body ''Failed to initiate training'', 500))
   \<and> (\<forall>g. (snd (train_model g) = 200) = (\<exists>kvs. g = Inr (JObj kvs)))
   \<and> (\<forall>g. (train_model g = (error_body ''Failed to initiate training'', 500))
            = (\<forall>kvs. g \<noteq> Inr (JObj kvs)))
   \<and> (\<forall>kvs. train_model (Inr (JObj kvs)) =
         (JObj
           [(''success'', JBool True),
            (''message'', JStr ''Training initiated''),
            (''model_type'', dict_get kvs ''model_type'' (JStr ''ensemble'')),
            (''event_type'', dict_get kvs ''event_type'' JNull),
            (''status'', JStr ''queued'')], 200))"
proof (intro conjI allI)
  show "train_model (Inr JNull) = (error_body ''Failed to initiate training'', 500)"
    by (rule train_model_not_JObj) simp
  show "train_model (Inl e) = (error_body ''Failed to initiate training'', 500)" for e
    by (rule train_model_not_JObj) simp
  show "(snd (train_model g) = 200) = (\<exists>kvs. g = Inr (JObj kvs))" for g
  proof (cases "\<exists>kvs. g = Inr (JObj kvs)")
    case True
    then show ?thesis by (auto simp add: train_model_JObj)
  next
    case False
    then have "train_model g = (error_body ''Failed to initiate training'', 500)"
      by (intro train_model_not_JObj) simp
    with False show ?thesis by simp
  qed
  show "(train_model g = (error_body ''Failed to initiate training'', 500))
            = (\<forall>kvs. g \<noteq> Inr (JObj kvs))" for g
  proof (cases "\<exists>kvs. g = Inr (JObj kvs)")
    case True
    then show ?thesis by (auto simp add: train_model_JObj)
  next
    case False
    then have "train_model g = (error_body ''Failed to initiate training'', 500)"
      by (intro train_model_not_JObj) simp
    with False show ?thesis by simp
  qed
  show "train_model (Inr (JObj kvs)) =
         (JObj
           [(''success'', JBool True),
            (''message'', JStr ''Training initiated''),
            (''model_type'', dict_get kvs ''model_type'' (JStr ''ensemble'')),
            (''event_type'', dict_get kvs ''event_type'' JNull),
            (''status'', JStr ''queued'')], 200)" for kvs
    by (rule train_model_JObj)
qed

theorem train_model_null_body_witness:
  "train_model (Inr JNull) = (error_body ''Failed to initiate training'', 500)
   \<and> train_model (Inl HTTPException) = (error_body ''Failed to initiate training'', 500)
   \<and> train_model (Inr (JObj [])) =
       (JObj
          [(''success'', JBool True),
           (''message'', JStr ''Training initiated''),
           (''model_type'', JStr ''ensemble''),
           (''event_type'', JNull),
           (''status'', JStr ''queued'')], 200)"
proof (intro conjI)
  note t = train_model_null_body
  show "train_model (Inr JNull) = (error_body ''Failed to initiate training'', 500)"
    by (rule t [THEN conjunct1])
  show "train_model (Inl HTTPException) = (error_body ''Failed to initiate training'', 500)"
    by (rule t [THEN conjunct2, THEN conjunct1, THEN spec])
  have "dict_get ([] :: (string \<times> json) list) ''model_type'' (JStr ''ensemble'') = JStr ''ensemble''"
    "dict_get ([] :: (string \<times> json) list) ''event_type'' JNull = JNull"
    by (simp_all add: dict_get_def)
  with t [THEN conjunct2, THEN conjunct2, THEN conjunct2, THEN conjunct2, THEN spec, of "[]"]
  show "train_model (Inr (JObj [])) =
       (JObj
          [(''success'', JBool True),
           (''message'', JStr ''Training initiated''),
           (''model_type'', JStr ''ensemble''),
           (''event_type'', JNull),
           (''status'', JStr ''queued'')], 200)"
    by simp
qed

end
